theory Spec2Isabelle
  imports Main
begin

section \<open>Data model\<close>

text \<open>
  The mutations of \<^verbatim>\<open>src/database/mutations.ts\<close> run against a relational store through
  the Prisma client. The rows below carry the columns that the mutations and their tests
  read or write. Columns that only the schema maintains (\<^verbatim>\<open>createdAt\<close>, \<^verbatim>\<open>updatedAt\<close>)
  are left out. A JavaScript \<^verbatim>\<open>Date\<close> is its epoch value; an optional property is an
  \<open>option\<close>, with \<open>None\<close> for an absent (\<^verbatim>\<open>undefined\<close>) one.
\<close>

type_synonym Date = nat

datatype CollectionStatus = DRAFT | PUBLISHED | ARCHIVED

text \<open>\<^verbatim>\<open>ImageEntityType\<close> is an enum of the schema; at run time its members are strings.\<close>

type_synonym ImageEntityType = string

record CollectionAuthor =
  id :: nat
  externalId :: string
  name :: string
  slug :: string
  bio :: "string option"
  imageUrl :: "string option"

text \<open>\<open>authors\<close> holds the ids of the connected authors (an implicit many-to-many relation).\<close>

record Collection =
  id :: nat
  externalId :: string
  slug :: string
  title :: string
  status :: CollectionStatus
  publishedAt :: "Date option"
  authors :: "nat list"

record CollectionStory =
  id :: nat
  externalId :: string
  collectionId :: nat
  url :: string
  title :: string
  excerpt :: string
  imageUrl :: string
  publisher :: string

text \<open>The join row between a story and one of its authors.\<close>

record CollectionStoryAuthor =
  collectionStoryId :: nat
  name :: string
  sortOrder :: int

record Image =
  id :: nat
  path :: string
  entityId :: "nat option"
  entityType :: "ImageEntityType option"

text \<open>A story, or a collection, together with the related rows an \<^verbatim>\<open>include\<close> joins in.
  The \<^verbatim>\<open>orderBy\<close> of an include depends on the collation of the database and is not
  modelled: related rows are listed in store order.\<close>

record CollectionStoryWithAuthors =
  storyRow :: CollectionStory
  authors :: "CollectionStoryAuthor list"

record CollectionWithAuthorsAndStories =
  collectionRow :: Collection
  authors :: "CollectionAuthor list"
  stories :: "CollectionStoryWithAuthors list"

subsection \<open>Mutation inputs\<close>

text \<open>
  The input types of \<^verbatim>\<open>./types\<close> are not part of the sources at hand; each record has
  the properties that the mutations read or assign and that the integration tests pass.
\<close>

record CreateCollectionAuthorInput =
  name :: string
  slug :: "string option"
  bio :: "string option"
  imageUrl :: "string option"

record UpdateCollectionAuthorInput =
  externalId :: "string option"
  name :: string
  slug :: string
  bio :: "string option"
  imageUrl :: "string option"

record CreateCollectionInput =
  slug :: string
  title :: string
  authorExternalId :: string

text \<open>
  \<open>publishedAt\<close> is a property of the update input: \<^verbatim>\<open>updateCollection\<close> assigns it,
  and an input built by spreading a row (as the integration test of the duplicate slug
  does) carries the row's value, which is \<^verbatim>\<open>null\<close> for a collection never published. So
  the property has three shapes: \<open>None\<close> is the absent property, \<open>Some None\<close> is
  \<^verbatim>\<open>null\<close>, \<open>Some (Some d)\<close> is the date \<open>d\<close>.
\<close>

record UpdateCollectionInput =
  externalId :: string
  slug :: string
  title :: string
  authorExternalId :: string
  status :: "CollectionStatus option"
  publishedAt :: "Date option option"

record CollectionStoryAuthorInput =
  name :: string
  sortOrder :: int

record CreateCollectionStoryInput =
  collectionExternalId :: string
  url :: string
  title :: string
  excerpt :: string
  imageUrl :: string
  authors :: "CollectionStoryAuthorInput list"
  publisher :: string

record UpdateCollectionStoryInput =
  externalId :: string
  url :: string
  title :: string
  excerpt :: string
  imageUrl :: string
  authors :: "CollectionStoryAuthorInput list"
  publisher :: string

record CreateImageInput =
  path :: string

text \<open>The entity argument of \<^verbatim>\<open>associateImageWithEntity\<close>:
  \<^verbatim>\<open>T extends { id: number; imageUrl: string }\<close>; the authors' \<^verbatim>\<open>imageUrl\<close> can be
  null, so it is optional here.\<close>

record Entity =
  id :: nat
  imageUrl :: "string option"

subsection \<open>Errors\<close>

text \<open>
  \<open>Error m\<close> is \<^verbatim>\<open>throw new Error(m)\<close>. \<open>TypeError\<close> is what the runtime throws when a
  property of \<^verbatim>\<open>null\<close> is read. \<open>RecordNotFound\<close> is the client's own exception when
  the row of an \<^verbatim>\<open>update\<close>, a \<^verbatim>\<open>delete\<close> or a \<^verbatim>\<open>connect\<close> does not exist.
\<close>

datatype error = Error string | TypeError | RecordNotFound

subsection \<open>The store and the client\<close>

record store =
  collectionAuthors :: "CollectionAuthor list"
  collections :: "Collection list"
  collectionStories :: "CollectionStory list"
  collectionStoryAuthors :: "CollectionStoryAuthor list"
  images :: "Image list"

datatype delegate =
  D_collectionAuthor | D_collection | D_collectionStory | D_collectionStoryAuthor | D_image

datatype action = Count | FindUnique | Create | Update | Delete | DeleteMany

text \<open>
  The client is the store plus the log of the calls made on it, in order, reads as well
  as writes. The log is what makes the order of the calls of a mutation a property of
  its result.
\<close>

record PrismaClient =
  tables :: store
  calls :: "(delegate \<times> action) list"

text \<open>What a call takes from outside the program: the clock (\<^verbatim>\<open>new Date()\<close>), and the
  \<^verbatim>\<open>externalId\<close> and the \<^verbatim>\<open>id\<close> that the database gives a new row.\<close>

record env =
  now :: Date
  uuid :: string
  autoincrement :: nat

definition logged :: "delegate \<Rightarrow> action \<Rightarrow> PrismaClient \<Rightarrow> PrismaClient" where
  "logged d a db = db\<lparr>calls := calls db @ [(d, a)]\<rparr>"

text \<open>An \<^verbatim>\<open>update\<close> addresses one row by a unique key: the first row that matches.\<close>

fun update_first :: "('a \<Rightarrow> bool) \<Rightarrow> ('a \<Rightarrow> 'a) \<Rightarrow> 'a list \<Rightarrow> 'a list" where
  "update_first P f [] = []"
| "update_first P f (x # xs) = (if P x then f x # xs else x # update_first P f xs)"

fun delete_first :: "('a \<Rightarrow> bool) \<Rightarrow> 'a list \<Rightarrow> 'a list" where
  "delete_first P [] = []"
| "delete_first P (x # xs) = (if P x then xs else x # delete_first P xs)"

section \<open>The client's delegates\<close>

text \<open>
  One definition for each call \<^verbatim>\<open>db.<model>.<action>\<close> that the mutations make. A
  \<^verbatim>\<open>where\<close> clause is a predicate on rows. Every call is logged. A write that fails
  changes no table: the client runs a write and its nested writes in one transaction.
\<close>

definition storyWithAuthors :: "store \<Rightarrow> CollectionStory \<Rightarrow> CollectionStoryWithAuthors" where
  "storyWithAuthors s st =
     \<lparr>CollectionStoryWithAuthors.storyRow = st,
      CollectionStoryWithAuthors.authors =
        filter (\<lambda>a. collectionStoryId a = CollectionStory.id st) (collectionStoryAuthors s)\<rparr>"

definition withAuthorsAndStories :: "store \<Rightarrow> Collection \<Rightarrow> CollectionWithAuthorsAndStories" where
  "withAuthorsAndStories s c =
     \<lparr>CollectionWithAuthorsAndStories.collectionRow = c,
      CollectionWithAuthorsAndStories.authors =
        filter (\<lambda>a. CollectionAuthor.id a \<in> set (Collection.authors c)) (collectionAuthors s),
      CollectionWithAuthorsAndStories.stories =
        map (storyWithAuthors s)
          (filter (\<lambda>st. collectionId st = Collection.id c) (collectionStories s))\<rparr>"

subsection \<open>\<^verbatim>\<open>db.collectionAuthor\<close>\<close>

definition collectionAuthor_count ::
  "(CollectionAuthor \<Rightarrow> bool) \<Rightarrow> PrismaClient \<Rightarrow> nat \<times> PrismaClient" where
  "collectionAuthor_count w db =
     (length (filter w (collectionAuthors (tables db))), logged D_collectionAuthor Count db)"

definition collectionAuthor_create ::
  "CollectionAuthor \<Rightarrow> PrismaClient \<Rightarrow> (error + CollectionAuthor) \<times> PrismaClient" where
  "collectionAuthor_create row db =
     (Inr row,
      logged D_collectionAuthor Create
        (db\<lparr>tables := (tables db)\<lparr>collectionAuthors := collectionAuthors (tables db) @ [row]\<rparr>\<rparr>))"

definition collectionAuthor_update ::
  "(CollectionAuthor \<Rightarrow> bool) \<Rightarrow> (CollectionAuthor \<Rightarrow> CollectionAuthor) \<Rightarrow> PrismaClient
     \<Rightarrow> (error + CollectionAuthor) \<times> PrismaClient" where
  "collectionAuthor_update w f db =
     (case find w (collectionAuthors (tables db)) of
        None \<Rightarrow> (Inl RecordNotFound, logged D_collectionAuthor Update db)
      | Some a \<Rightarrow>
          (Inr (f a),
           logged D_collectionAuthor Update
             (db\<lparr>tables := (tables db)
                \<lparr>collectionAuthors := update_first w f (collectionAuthors (tables db))\<rparr>\<rparr>)))"

subsection \<open>\<^verbatim>\<open>db.collection\<close>\<close>

definition collection_count ::
  "(Collection \<Rightarrow> bool) \<Rightarrow> PrismaClient \<Rightarrow> nat \<times> PrismaClient" where
  "collection_count w db =
     (length (filter w (collections (tables db))), logged D_collection Count db)"

text \<open>
  Modelled from the spec: the schema (\<^verbatim>\<open>prisma/schema.prisma\<close>) is not among the sources.
  It gives a new collection the columns the create call leaves out: "creating a
  collection defaults its status to draft and publishedAt to empty". The \<^verbatim>\<open>id\<close> and
  the \<^verbatim>\<open>externalId\<close> are the database's.
\<close>

definition new_Collection :: "env \<Rightarrow> CreateCollectionInput \<Rightarrow> nat list \<Rightarrow> Collection" where
  "new_Collection e data as =
     \<lparr>Collection.id = autoincrement e,
      Collection.externalId = uuid e,
      Collection.slug = CreateCollectionInput.slug data,
      Collection.title = CreateCollectionInput.title data,
      Collection.status = DRAFT,
      Collection.publishedAt = None,
      Collection.authors = as\<rparr>"

text \<open>\<^verbatim>\<open>create({ data: { ...data, authors: { connect: { externalId } } }, include })\<close>:
  the connect fails when no author has that \<^verbatim>\<open>externalId\<close>.\<close>

definition collection_create ::
  "env \<Rightarrow> CreateCollectionInput \<Rightarrow> string \<Rightarrow> PrismaClient
     \<Rightarrow> (error + CollectionWithAuthorsAndStories) \<times> PrismaClient" where
  "collection_create e data author_eid db =
     (case find (\<lambda>a. CollectionAuthor.externalId a = author_eid)
             (collectionAuthors (tables db)) of
        None \<Rightarrow> (Inl RecordNotFound, logged D_collection Create db)
      | Some a \<Rightarrow>
          (let row = new_Collection e data [CollectionAuthor.id a];
               s = (tables db)\<lparr>collections := collections (tables db) @ [row]\<rparr>
           in (Inr (withAuthorsAndStories s row),
               logged D_collection Create (db\<lparr>tables := s\<rparr>))))"

text \<open>The properties of the update input that are columns, written over the row; an
  absent optional property leaves its column as it is, and a \<^verbatim>\<open>publishedAt\<close> that is
  present is written as it is, \<^verbatim>\<open>null\<close> included.\<close>

definition apply_UpdateCollectionInput :: "UpdateCollectionInput \<Rightarrow> Collection \<Rightarrow> Collection" where
  "apply_UpdateCollectionInput data c =
     c\<lparr>Collection.externalId := UpdateCollectionInput.externalId data,
       Collection.slug := UpdateCollectionInput.slug data,
       Collection.title := UpdateCollectionInput.title data,
       Collection.status :=
         (case UpdateCollectionInput.status data of
            None \<Rightarrow> Collection.status c | Some st \<Rightarrow> st),
       Collection.publishedAt :=
         (case UpdateCollectionInput.publishedAt data of
            None \<Rightarrow> Collection.publishedAt c | Some v \<Rightarrow> v)\<rparr>"

text \<open>\<^verbatim>\<open>update({ where, data: { ...data, authors: { set: [], connect } }, include })\<close>.\<close>

definition collection_update ::
  "(Collection \<Rightarrow> bool) \<Rightarrow> UpdateCollectionInput \<Rightarrow> string \<Rightarrow> PrismaClient
     \<Rightarrow> (error + CollectionWithAuthorsAndStories) \<times> PrismaClient" where
  "collection_update w data author_eid db =
     (case find w (collections (tables db)) of
        None \<Rightarrow> (Inl RecordNotFound, logged D_collection Update db)
      | Some c \<Rightarrow>
          (case find (\<lambda>a. CollectionAuthor.externalId a = author_eid)
                  (collectionAuthors (tables db)) of
             None \<Rightarrow> (Inl RecordNotFound, logged D_collection Update db)
           | Some a \<Rightarrow>
               (let f = (\<lambda>c. (apply_UpdateCollectionInput data c)
                              \<lparr>Collection.authors := [CollectionAuthor.id a]\<rparr>);
                    s = (tables db)\<lparr>collections := update_first w f (collections (tables db))\<rparr>
                in (Inr (withAuthorsAndStories s (f c)),
                    logged D_collection Update (db\<lparr>tables := s\<rparr>)))))"

subsection \<open>\<^verbatim>\<open>db.collectionStory\<close> and \<^verbatim>\<open>db.collectionStoryAuthor\<close>\<close>

definition new_authors :: "nat \<Rightarrow> CollectionStoryAuthorInput list \<Rightarrow> CollectionStoryAuthor list" where
  "new_authors sid as =
     map (\<lambda>a. \<lparr>CollectionStoryAuthor.collectionStoryId = sid,
               CollectionStoryAuthor.name = CollectionStoryAuthorInput.name a,
               CollectionStoryAuthor.sortOrder = CollectionStoryAuthorInput.sortOrder a\<rparr>) as"

text \<open>\<^verbatim>\<open>create({ data: { ...data, collectionId, authors: { create: data.authors } }, include })\<close>.\<close>

definition collectionStory_create ::
  "env \<Rightarrow> CreateCollectionStoryInput \<Rightarrow> nat \<Rightarrow> PrismaClient
     \<Rightarrow> (error + CollectionStoryWithAuthors) \<times> PrismaClient" where
  "collectionStory_create e data cid db =
     (let row = \<lparr>CollectionStory.id = autoincrement e,
                 CollectionStory.externalId = uuid e,
                 CollectionStory.collectionId = cid,
                 CollectionStory.url = CreateCollectionStoryInput.url data,
                 CollectionStory.title = CreateCollectionStoryInput.title data,
                 CollectionStory.excerpt = CreateCollectionStoryInput.excerpt data,
                 CollectionStory.imageUrl = CreateCollectionStoryInput.imageUrl data,
                 CollectionStory.publisher = CreateCollectionStoryInput.publisher data\<rparr>;
          s = (tables db)
                \<lparr>collectionStories := collectionStories (tables db) @ [row],
                 collectionStoryAuthors := collectionStoryAuthors (tables db) @
                   new_authors (autoincrement e) (CreateCollectionStoryInput.authors data)\<rparr>
      in (Inr (storyWithAuthors s row), logged D_collectionStory Create (db\<lparr>tables := s\<rparr>)))"

definition apply_UpdateCollectionStoryInput ::
  "UpdateCollectionStoryInput \<Rightarrow> CollectionStory \<Rightarrow> CollectionStory" where
  "apply_UpdateCollectionStoryInput data st =
     st\<lparr>CollectionStory.externalId := UpdateCollectionStoryInput.externalId data,
        CollectionStory.url := UpdateCollectionStoryInput.url data,
        CollectionStory.title := UpdateCollectionStoryInput.title data,
        CollectionStory.excerpt := UpdateCollectionStoryInput.excerpt data,
        CollectionStory.imageUrl := UpdateCollectionStoryInput.imageUrl data,
        CollectionStory.publisher := UpdateCollectionStoryInput.publisher data\<rparr>"

text \<open>\<^verbatim>\<open>update({ where, data: { ...data, authors: { create: data.authors } }, include })\<close>.\<close>

definition collectionStory_update ::
  "(CollectionStory \<Rightarrow> bool) \<Rightarrow> UpdateCollectionStoryInput \<Rightarrow> PrismaClient
     \<Rightarrow> (error + CollectionStoryWithAuthors) \<times> PrismaClient" where
  "collectionStory_update w data db =
     (case find w (collectionStories (tables db)) of
        None \<Rightarrow> (Inl RecordNotFound, logged D_collectionStory Update db)
      | Some st \<Rightarrow>
          (let s = (tables db)
                \<lparr>collectionStories :=
                   update_first w (apply_UpdateCollectionStoryInput data) (collectionStories (tables db)),
                 collectionStoryAuthors := collectionStoryAuthors (tables db) @
                   new_authors (CollectionStory.id st) (UpdateCollectionStoryInput.authors data)\<rparr>
           in (Inr (storyWithAuthors s (apply_UpdateCollectionStoryInput data st)),
               logged D_collectionStory Update (db\<lparr>tables := s\<rparr>))))"

text \<open>\<^verbatim>\<open>delete({ where })\<close> removes the one row and nothing else: no cascade to the
  join rows is modelled, so it is the caller who has to remove them.\<close>

definition collectionStory_delete ::
  "(CollectionStory \<Rightarrow> bool) \<Rightarrow> PrismaClient \<Rightarrow> (error + CollectionStory) \<times> PrismaClient" where
  "collectionStory_delete w db =
     (case find w (collectionStories (tables db)) of
        None \<Rightarrow> (Inl RecordNotFound, logged D_collectionStory Delete db)
      | Some st \<Rightarrow>
          (Inr st,
           logged D_collectionStory Delete
             (db\<lparr>tables := (tables db)
                \<lparr>collectionStories := delete_first w (collectionStories (tables db))\<rparr>\<rparr>)))"

text \<open>\<^verbatim>\<open>deleteMany({ where })\<close> returns the number of rows it removed.\<close>

definition collectionStoryAuthor_deleteMany ::
  "(CollectionStoryAuthor \<Rightarrow> bool) \<Rightarrow> PrismaClient \<Rightarrow> nat \<times> PrismaClient" where
  "collectionStoryAuthor_deleteMany w db =
     (length (filter w (collectionStoryAuthors (tables db))),
      logged D_collectionStoryAuthor DeleteMany
        (db\<lparr>tables := (tables db)
           \<lparr>collectionStoryAuthors :=
              filter (\<lambda>a. \<not> w a) (collectionStoryAuthors (tables db))\<rparr>\<rparr>))"

subsection \<open>\<^verbatim>\<open>db.image\<close>\<close>

definition image_create ::
  "env \<Rightarrow> CreateImageInput \<Rightarrow> PrismaClient \<Rightarrow> (error + Image) \<times> PrismaClient" where
  "image_create e data db =
     (let row = \<lparr>Image.id = autoincrement e, Image.path = CreateImageInput.path data,
                 Image.entityId = None, Image.entityType = None\<rparr>
      in (Inr row,
          logged D_image Create
            (db\<lparr>tables := (tables db)\<lparr>images := images (tables db) @ [row]\<rparr>\<rparr>)))"

definition image_findUnique ::
  "(Image \<Rightarrow> bool) \<Rightarrow> PrismaClient \<Rightarrow> Image option \<times> PrismaClient" where
  "image_findUnique w db = (find w (images (tables db)), logged D_image FindUnique db)"

definition image_update ::
  "(Image \<Rightarrow> bool) \<Rightarrow> (Image \<Rightarrow> Image) \<Rightarrow> PrismaClient \<Rightarrow> (error + Image) \<times> PrismaClient" where
  "image_update w f db =
     (case find w (images (tables db)) of
        None \<Rightarrow> (Inl RecordNotFound, logged D_image Update db)
      | Some i \<Rightarrow>
          (Inr (f i),
           logged D_image Update
             (db\<lparr>tables := (tables db)\<lparr>images := update_first w f (images (tables db))\<rparr>\<rparr>)))"

section \<open>Queries\<close>

text \<open>
  Modelled from the spec: \<^verbatim>\<open>getCollection\<close> and \<^verbatim>\<open>getCollectionStory\<close> live in
  \<^verbatim>\<open>./queries\<close>, which is not among the sources. The mutations "look up by unique
  external identifier"; the lookup gives nothing when no row has the identifier (the
  test of \<^verbatim>\<open>getCollectionStory\<close> for an unknown id expects a falsy result, and
  \<^verbatim>\<open>updateCollection\<close> tests the result of \<^verbatim>\<open>getCollection\<close> for it), and the row with
  its related rows otherwise.
\<close>

definition getCollection ::
  "PrismaClient \<Rightarrow> string \<Rightarrow> CollectionWithAuthorsAndStories option \<times> PrismaClient" where
  "getCollection db eid =
     (map_option (withAuthorsAndStories (tables db))
        (find (\<lambda>c. Collection.externalId c = eid) (collections (tables db))),
      logged D_collection FindUnique db)"

text \<open>
  Modelled from the spec: \<^verbatim>\<open>getCollectionStory\<close> of \<^verbatim>\<open>./queries\<close>, the lookup of a
  story by its external identifier, with its author rows; nothing for an unknown
  identifier.
\<close>

definition getCollectionStory ::
  "PrismaClient \<Rightarrow> string \<Rightarrow> CollectionStoryWithAuthors option \<times> PrismaClient" where
  "getCollectionStory db eid =
     (map_option (storyWithAuthors (tables db))
        (find (\<lambda>st. CollectionStory.externalId st = eid) (collectionStories (tables db))),
      logged D_collectionStory FindUnique db)"

section \<open>Mutations\<close>

text \<open>
  Each mutation takes the client and its input and gives back what it returns or throws,
  and the client afterwards. \<^verbatim>\<open>slugify(_, config.slugify)\<close> is a library call with a
  configuration that is not among the sources; it is the parameter \<open>slugify\<close>.
\<close>

definition author_slug_exists :: "string \<Rightarrow> string" where
  \<open>author_slug_exists s = ''An author with the slug "'' @ s @ ''" already exists''\<close>

definition collection_slug_exists :: "string \<Rightarrow> string" where
  "collection_slug_exists s = ''A collection with the slug '' @ s @ '' already exists''"

text \<open>\<^verbatim>\<open>data.slug || slugify(data.name, config.slugify)\<close>: an absent and an empty
  slug are falsy.\<close>

definition slug_or_default :: "(string \<Rightarrow> string) \<Rightarrow> CreateCollectionAuthorInput \<Rightarrow> string" where
  "slug_or_default slugify data =
     (case CreateCollectionAuthorInput.slug data of
        None \<Rightarrow> slugify (CreateCollectionAuthorInput.name data)
      | Some s \<Rightarrow> if s = [] then slugify (CreateCollectionAuthorInput.name data) else s)"

definition createAuthor ::
  "(string \<Rightarrow> string) \<Rightarrow> env \<Rightarrow> PrismaClient \<Rightarrow> CreateCollectionAuthorInput
     \<Rightarrow> (error + CollectionAuthor) \<times> PrismaClient" where
  "createAuthor slugify e db data =
     (let slug' = slug_or_default slugify data;
          (slugExists, db1) = collectionAuthor_count (\<lambda>a. CollectionAuthor.slug a = slug') db
      in if slugExists \<noteq> 0 then (Inl (Error (author_slug_exists slug')), db1)
         else collectionAuthor_create
                \<lparr>CollectionAuthor.id = autoincrement e,
                 CollectionAuthor.externalId = uuid e,
                 CollectionAuthor.name = CreateCollectionAuthorInput.name data,
                 CollectionAuthor.slug = slug',
                 CollectionAuthor.bio = CreateCollectionAuthorInput.bio data,
                 CollectionAuthor.imageUrl = CreateCollectionAuthorInput.imageUrl data\<rparr> db1)"

text \<open>\<^verbatim>\<open>data: { ...data }\<close> of \<^verbatim>\<open>updateAuthor\<close>, for an input whose \<^verbatim>\<open>externalId\<close> is \<open>eid\<close>.\<close>

definition apply_UpdateCollectionAuthorInput ::
  "string \<Rightarrow> UpdateCollectionAuthorInput \<Rightarrow> CollectionAuthor \<Rightarrow> CollectionAuthor" where
  "apply_UpdateCollectionAuthorInput eid data a =
     a\<lparr>CollectionAuthor.externalId := eid,
       CollectionAuthor.name := UpdateCollectionAuthorInput.name data,
       CollectionAuthor.slug := UpdateCollectionAuthorInput.slug data,
       CollectionAuthor.bio :=
         (case UpdateCollectionAuthorInput.bio data of
            None \<Rightarrow> CollectionAuthor.bio a | Some b \<Rightarrow> Some b),
       CollectionAuthor.imageUrl :=
         (case UpdateCollectionAuthorInput.imageUrl data of
            None \<Rightarrow> CollectionAuthor.imageUrl a | Some u \<Rightarrow> Some u)\<rparr>"

definition updateAuthor ::
  "PrismaClient \<Rightarrow> UpdateCollectionAuthorInput \<Rightarrow> (error + CollectionAuthor) \<times> PrismaClient" where
  "updateAuthor db data =
     (case UpdateCollectionAuthorInput.externalId data of
        None \<Rightarrow> (Inl (Error ''externalId must be provided.''), db)
      | Some eid \<Rightarrow>
          if eid = [] then (Inl (Error ''externalId must be provided.''), db)
          else
            (let (slugExists, db1) =
                   collectionAuthor_count
                     (\<lambda>a. CollectionAuthor.slug a = UpdateCollectionAuthorInput.slug data \<and>
                           CollectionAuthor.externalId a \<noteq> eid) db
             in if slugExists \<noteq> 0
                then (Inl (Error (author_slug_exists (UpdateCollectionAuthorInput.slug data))),
                      db1)
                else collectionAuthor_update (\<lambda>a. CollectionAuthor.externalId a = eid)
                       (apply_UpdateCollectionAuthorInput eid data) db1))"

definition createCollection ::
  "env \<Rightarrow> PrismaClient \<Rightarrow> CreateCollectionInput
     \<Rightarrow> (error + CollectionWithAuthorsAndStories) \<times> PrismaClient" where
  "createCollection e db data =
     (let (slugExists, db1) =
            collection_count (\<lambda>c. Collection.slug c = CreateCollectionInput.slug data) db
      in if slugExists \<noteq> 0
         then (Inl (Error (collection_slug_exists (CreateCollectionInput.slug data))), db1)
         else collection_create e data (CreateCollectionInput.authorExternalId data) db1)"

text \<open>"if the collection is going from unpublished to published, we update its
  \<^verbatim>\<open>publishedAt\<close> time": the assignment \<^verbatim>\<open>data.publishedAt = new Date()\<close>.\<close>

definition stamp_publishedAt ::
  "env \<Rightarrow> Collection \<Rightarrow> UpdateCollectionInput \<Rightarrow> UpdateCollectionInput" where
  "stamp_publishedAt e existing data =
     (if Collection.status existing \<noteq> PUBLISHED \<and>
         UpdateCollectionInput.status data = Some PUBLISHED
      then data\<lparr>UpdateCollectionInput.publishedAt := Some (Some (now e))\<rparr>
      else data)"

definition updateCollection ::
  "env \<Rightarrow> PrismaClient \<Rightarrow> UpdateCollectionInput
     \<Rightarrow> (error + CollectionWithAuthorsAndStories) \<times> PrismaClient" where
  "updateCollection e db data =
     (let (existingCollection, db1) = getCollection db (UpdateCollectionInput.externalId data)
      in case existingCollection of
           None \<Rightarrow> (Inl (Error ''A collection by that ID could not be found''), db1)
         | Some existing \<Rightarrow>
             (let (sameSlugs, db2) =
                    (if Collection.slug (collectionRow existing) \<noteq> UpdateCollectionInput.slug data
                     then collection_count
                            (\<lambda>c. Collection.slug c = UpdateCollectionInput.slug data \<and>
                                  Collection.externalId c \<notin>
                                    set [Collection.externalId (collectionRow existing)]) db1
                     else (0, db1))
              in if sameSlugs > 0
                 then (Inl (Error (collection_slug_exists (UpdateCollectionInput.slug data))), db2)
                 else
                   (let data' = stamp_publishedAt e (collectionRow existing) data
                    in collection_update
                         (\<lambda>c. Collection.externalId c = UpdateCollectionInput.externalId data')
                         data' (UpdateCollectionInput.authorExternalId data) db2)))"

text \<open>In the three story mutations the result of the lookup is used unchecked:
  \<^verbatim>\<open>collection.id\<close> and \<^verbatim>\<open>existingStory.id\<close> throw a \<^verbatim>\<open>TypeError\<close> when the lookup
  found nothing, before the next call on the client is made.\<close>

definition createCollectionStory ::
  "env \<Rightarrow> PrismaClient \<Rightarrow> CreateCollectionStoryInput
     \<Rightarrow> (error + CollectionStoryWithAuthors) \<times> PrismaClient" where
  "createCollectionStory e db data =
     (let (found, db1) = getCollection db (CreateCollectionStoryInput.collectionExternalId data)
      in case found of
           None \<Rightarrow> (Inl TypeError, db1)
         | Some c \<Rightarrow> collectionStory_create e data (Collection.id (collectionRow c)) db1)"

definition updateCollectionStory ::
  "PrismaClient \<Rightarrow> UpdateCollectionStoryInput
     \<Rightarrow> (error + CollectionStoryWithAuthors) \<times> PrismaClient" where
  "updateCollectionStory db data =
     (let (existingStory, db1) = getCollectionStory db (UpdateCollectionStoryInput.externalId data)
      in case existingStory of
           None \<Rightarrow> (Inl TypeError, db1)
         | Some existing \<Rightarrow>
             (let (n, db2) =
                    collectionStoryAuthor_deleteMany
                      (\<lambda>a. collectionStoryId a = CollectionStory.id (storyRow existing)) db1
              in collectionStory_update
                   (\<lambda>st. CollectionStory.externalId st = UpdateCollectionStoryInput.externalId data)
                   data db2))"

definition deleteCollectionStory ::
  "PrismaClient \<Rightarrow> string \<Rightarrow> (error + CollectionStoryWithAuthors) \<times> PrismaClient" where
  "deleteCollectionStory db eid =
     (let (existingStory, db1) = getCollectionStory db eid
      in case existingStory of
           None \<Rightarrow> (Inl TypeError, db1)
         | Some existing \<Rightarrow>
             (let (n, db2) =
                    collectionStoryAuthor_deleteMany
                      (\<lambda>a. collectionStoryId a = CollectionStory.id (storyRow existing)) db1;
                  (deleted, db3) =
                    collectionStory_delete (\<lambda>st. CollectionStory.externalId st = eid) db2
              in case deleted of
                   Inl err \<Rightarrow> (Inl err, db3)
                 | Inr st \<Rightarrow> (Inr existing, db3)))"

definition createImage ::
  "env \<Rightarrow> PrismaClient \<Rightarrow> CreateImageInput \<Rightarrow> (error + Image) \<times> PrismaClient" where
  "createImage e db data = image_create e data db"

text \<open>\<^verbatim>\<open>Promise<Image | void>\<close>: \<open>Inr None\<close> is the return without a value.\<close>

definition associateImageWithEntity ::
  "PrismaClient \<Rightarrow> Entity \<Rightarrow> ImageEntityType \<Rightarrow> (error + Image option) \<times> PrismaClient" where
  "associateImageWithEntity db entity ty =
     (case Entity.imageUrl entity of
        None \<Rightarrow> (Inr None, db)
      | Some u \<Rightarrow>
          if u = [] then (Inr None, db)
          else
            (let (found, db1) = image_findUnique (\<lambda>i. Image.path i = u) db
             in case found of
                  None \<Rightarrow> (Inr None, db1)
                | Some img \<Rightarrow>
                    (let (updated, db2) =
                           image_update (\<lambda>i. Image.id i = Image.id img)
                             (\<lambda>i. i\<lparr>Image.entityId := Some (Entity.id entity),
                                     Image.entityType := Some ty\<rparr>) db1
                     in case updated of
                          Inl err \<Rightarrow> (Inl err, db2)
                        | Inr i \<Rightarrow> (Inr (Some i), db2))))"

section \<open>A small store\<close>

text \<open>Two authors, a draft and a published collection, a story with two author rows
  and an image, after the fixtures of the integration tests.\<close>

definition env0 :: env where
  "env0 = \<lparr>now = 1000, uuid = ''u-9'', autoincrement = 9\<rparr>"

definition walter :: CollectionAuthor where
  "walter = \<lparr>CollectionAuthor.id = 1, externalId = ''a-1'', name = ''walter'',
      slug = ''walter'', bio = None, imageUrl = None\<rparr>"

definition the_dude :: CollectionAuthor where
  "the_dude = \<lparr>CollectionAuthor.id = 2, externalId = ''a-2'', name = ''the dude'',
      slug = ''the-dude'', bio = Some ''the dude abides'', imageUrl = Some ''dude.gif''\<rparr>"

definition bowling :: Collection where
  "bowling = \<lparr>Collection.id = 1, externalId = ''c-1'', slug = ''let-us-go-bowling'',
      title = ''let us go bowling'', status = DRAFT, publishedAt = None, authors = [1]\<rparr>"

definition ringing :: Collection where
  "ringing = \<lparr>Collection.id = 2, externalId = ''c-2'', slug = ''phone-is-ringing'',
      title = ''phone is ringing'', status = PUBLISHED, publishedAt = Some 5, authors = [2]\<rparr>"

definition a_story :: CollectionStory where
  "a_story = \<lparr>CollectionStory.id = 1, externalId = ''s-1'', collectionId = 1,
      url = ''https://getpocket.com'', title = ''a story'', excerpt = ''this is a story'',
      imageUrl = ''https://some.image'', publisher = ''the verge''\<rparr>"

definition donny :: CollectionStoryAuthor where
  "donny = \<lparr>CollectionStoryAuthor.collectionStoryId = 1, name = ''donny'', sortOrder = 0\<rparr>"

definition maude :: CollectionStoryAuthor where
  "maude = \<lparr>CollectionStoryAuthor.collectionStoryId = 1, name = ''maude'', sortOrder = 1\<rparr>"

definition dude_gif :: Image where
  "dude_gif = \<lparr>Image.id = 1, path = ''dude.gif'', entityId = None, entityType = None\<rparr>"

definition db0 :: PrismaClient where
  "db0 =
     \<lparr>tables =
        \<lparr>collectionAuthors = [walter, the_dude], collections = [bowling, ringing],
         collectionStories = [a_story], collectionStoryAuthors = [donny, maude],
         images = [dude_gif]\<rparr>,
      calls = []\<rparr>"

text \<open>A stand-in for the slug library in the examples: blanks become hyphens.\<close>

definition hyphenate :: "string \<Rightarrow> string" where
  "hyphenate = map (\<lambda>c. if c = CHR '' '' then CHR ''-'' else c)"

text \<open>Inputs that collide with a slug of the store, and inputs that do not.\<close>

definition dup_author :: CreateCollectionAuthorInput where
  "dup_author = \<lparr>CreateCollectionAuthorInput.name = ''walter'', slug = None, bio = None,
      imageUrl = None\<rparr>"

definition new_author :: CreateCollectionAuthorInput where
  "new_author = \<lparr>CreateCollectionAuthorInput.name = ''walter man'', slug = None, bio = None,
      imageUrl = None\<rparr>"

definition his_dudeness :: CreateCollectionAuthorInput where
  "his_dudeness = \<lparr>CreateCollectionAuthorInput.name = ''the dude'',
      slug = Some ''his-dudeness'', bio = Some ''the dude abides'',
      imageUrl = Some ''https://i.imgur.com/YeydXfW.gif''\<rparr>"

definition dup_author_update :: UpdateCollectionAuthorInput where
  "dup_author_update = \<lparr>UpdateCollectionAuthorInput.externalId = Some ''a-1'',
      name = ''walter'', slug = ''the-dude'', bio = None, imageUrl = None\<rparr>"

definition el_duderino :: UpdateCollectionAuthorInput where
  "el_duderino = \<lparr>UpdateCollectionAuthorInput.externalId = Some ''a-2'',
      name = ''el duderino'', slug = ''el-duderino'', bio = Some ''he abides, man'',
      imageUrl = None\<rparr>"

definition dup_collection :: CreateCollectionInput where
  "dup_collection = \<lparr>CreateCollectionInput.slug = ''let-us-go-bowling'',
      title = ''bowling, again'', authorExternalId = ''a-1''\<rparr>"

definition walter_bowls :: CreateCollectionInput where
  "walter_bowls = \<lparr>CreateCollectionInput.slug = ''walter-bowls'',
      title = ''walter bowls'', authorExternalId = ''a-1''\<rparr>"

definition dup_collection_update :: UpdateCollectionInput where
  "dup_collection_update = \<lparr>UpdateCollectionInput.externalId = ''c-2'',
      slug = ''let-us-go-bowling'', title = ''phone is ringing'', authorExternalId = ''a-2'',
      status = None, publishedAt = None\<rparr>"

text \<open>Updates of the two collections that keep the slug: one that publishes the draft,
  one that saves the draft as a draft, one that keeps the published one published, one
  that takes it back to a draft, and two that carry a \<^verbatim>\<open>publishedAt\<close> of their own, a
  date and \<^verbatim>\<open>null\<close>.\<close>

definition first_iteration :: UpdateCollectionInput where
  "first_iteration = \<lparr>UpdateCollectionInput.externalId = ''c-1'',
      slug = ''let-us-go-bowling'', title = ''first iteration'', authorExternalId = ''a-1'',
      status = Some DRAFT, publishedAt = None\<rparr>"

definition unpublished :: UpdateCollectionInput where
  "unpublished = \<lparr>UpdateCollectionInput.externalId = ''c-2'',
      slug = ''phone-is-ringing'', title = ''phone is ringing'', authorExternalId = ''a-2'',
      status = Some DRAFT, publishedAt = None\<rparr>"

definition cleared :: UpdateCollectionInput where
  "cleared = \<lparr>UpdateCollectionInput.externalId = ''c-2'',
      slug = ''phone-is-ringing'', title = ''phone is ringing'', authorExternalId = ''a-2'',
      status = Some PUBLISHED, publishedAt = Some None\<rparr>"

definition second_iteration :: UpdateCollectionInput where
  "second_iteration = \<lparr>UpdateCollectionInput.externalId = ''c-1'',
      slug = ''let-us-go-bowling'', title = ''second iteration'', authorExternalId = ''a-1'',
      status = Some PUBLISHED, publishedAt = None\<rparr>"

definition third_iteration :: UpdateCollectionInput where
  "third_iteration = \<lparr>UpdateCollectionInput.externalId = ''c-2'',
      slug = ''phone-is-ringing'', title = ''third iteration'', authorExternalId = ''a-2'',
      status = Some PUBLISHED, publishedAt = None\<rparr>"

definition redated :: UpdateCollectionInput where
  "redated = \<lparr>UpdateCollectionInput.externalId = ''c-2'',
      slug = ''phone-is-ringing'', title = ''phone is ringing'', authorExternalId = ''a-2'',
      status = Some PUBLISHED, publishedAt = Some (Some 99)\<rparr>"

text \<open>Entities with and without an image, and inputs that name a collection or a story
  the store does not have.\<close>

definition the_dude_entity :: Entity where
  "the_dude_entity = \<lparr>Entity.id = 2, imageUrl = Some ''dude.gif''\<rparr>"

definition walter_entity :: Entity where
  "walter_entity = \<lparr>Entity.id = 1, imageUrl = None\<rparr>"

definition donny_entity :: Entity where
  "donny_entity = \<lparr>Entity.id = 3, imageUrl = Some ''donny.gif''\<rparr>"

definition orphan_story :: CreateCollectionStoryInput where
  "orphan_story = \<lparr>CreateCollectionStoryInput.collectionExternalId = ''c-9'',
      url = ''https://getpocket.com'', title = ''a story'', excerpt = ''this is a story'',
      imageUrl = ''https://some.image'',
      authors = [\<lparr>CollectionStoryAuthorInput.name = ''donny'', sortOrder = 0\<rparr>],
      publisher = ''the verge''\<rparr>"

definition unknown_story :: UpdateCollectionStoryInput where
  "unknown_story = \<lparr>UpdateCollectionStoryInput.externalId = ''s-1typo'',
      url = ''https://getpocket.com'', title = ''a story'', excerpt = ''this is a story'',
      imageUrl = ''https://some.image'',
      authors = [\<lparr>CollectionStoryAuthorInput.name = ''donny'', sortOrder = 0\<rparr>],
      publisher = ''the verge''\<rparr>"

definition unknown_collection :: UpdateCollectionInput where
  "unknown_collection = \<lparr>UpdateCollectionInput.externalId = ''c-9'',
      slug = ''let-us-go-bowling'', title = ''second iteration'', authorExternalId = ''a-1'',
      status = None, publishedAt = None\<rparr>"

lemmas fixtures =
  env0_def walter_def the_dude_def bowling_def ringing_def a_story_def donny_def maude_def
  dude_gif_def db0_def hyphenate_def dup_author_def new_author_def his_dudeness_def
  dup_author_update_def el_duderino_def dup_collection_def walter_bowls_def
  dup_collection_update_def second_iteration_def third_iteration_def redated_def
  first_iteration_def unpublished_def cleared_def
  the_dude_entity_def walter_entity_def donny_entity_def orphan_story_def unknown_story_def
  unknown_collection_def

section \<open>Basic facts\<close>

lemma tables_logged [simp]: "tables (logged d a db) = tables db"
  by (simp add: logged_def)

lemma calls_logged [simp]: "calls (logged d a db) = calls db @ [(d, a)]"
  by (simp add: logged_def)

lemma collectionRow_withAuthorsAndStories [simp]:
  "collectionRow (withAuthorsAndStories s c) = c"
  by (simp add: withAuthorsAndStories_def)

lemma storyRow_storyWithAuthors [simp]: "storyRow (storyWithAuthors s st) = st"
  by (simp add: storyWithAuthors_def)

subsection \<open>Rows addressed by a unique key\<close>

lemma find_Some_mem: "find P xs = Some x \<Longrightarrow> x \<in> set xs \<and> P x"
  by (induction xs) (auto split: if_splits)

lemma find_update_first:
  "find P xs = Some x \<Longrightarrow> P (f x) \<Longrightarrow> find P (update_first P f xs) = Some (f x)"
  by (induction xs) (auto split: if_splits)

lemma length_update_first [simp]: "length (update_first P f xs) = length xs"
  by (induction xs) auto

lemma update_first_list_update:
  "find P xs = Some x \<Longrightarrow> \<exists>k<length xs. xs ! k = x \<and> update_first P f xs = xs[k := f x]"
proof (induction xs)
  case Nil
  then show ?case by simp
next
  case (Cons y ys)
  show ?case
  proof (cases "P y")
    case True
    with Cons.prems have "y = x" by simp
    with True have "(y # ys) ! 0 = x \<and> update_first P f (y # ys) = (y # ys)[0 := f x]"
      by simp
    then show ?thesis by blast
  next
    case False
    with Cons obtain k where "k < length ys" "ys ! k = x" "update_first P f ys = ys[k := f x]"
      by auto
    with False have "Suc k < length (y # ys) \<and> (y # ys) ! Suc k = x \<and>
        update_first P f (y # ys) = (y # ys)[Suc k := f x]"
      by simp
    then show ?thesis by blast
  qed
qed

lemma find_key_distinct:
  "distinct (map key xs) \<Longrightarrow> x \<in> set xs \<Longrightarrow> find (\<lambda>y. key y = key x) xs = Some x"
  by (induction xs) (auto simp: image_iff)

text \<open>When the key is unique, updating the first match is updating every match.\<close>

lemma update_first_map:
  "distinct (map key xs) \<Longrightarrow>
     update_first (\<lambda>y. key y = k) f xs = map (\<lambda>y. if key y = k then f y else y) xs"
proof (induction xs)
  case Nil
  then show ?case by simp
next
  case (Cons x xs)
  show ?case
  proof (cases "key x = k")
    case True
    with Cons.prems have "k \<notin> key ` set xs" by simp
    then have "\<forall>y\<in>set xs. key y \<noteq> k" by blast
    then have "map (\<lambda>y. if key y = k then f y else y) xs = xs"
      by (simp add: map_idI)
    with True show ?thesis by simp
  next
    case False
    with Cons show ?thesis by simp
  qed
qed

section \<open>A missing identifier on update\<close>

text \<open>
  C8. \<^verbatim>\<open>updateAuthor\<close> with an input whose \<^verbatim>\<open>externalId\<close> is absent or empty throws
  the error with the message "externalId must be provided." and leaves the client as it
  was: no table has changed and no call, neither a lookup nor a write, has been logged.
\<close>

theorem updateAuthor_requires_externalId:
  assumes "UpdateCollectionAuthorInput.externalId data = None \<or>
           UpdateCollectionAuthorInput.externalId data = Some []"
  shows "updateAuthor db data = (Inl (Error ''externalId must be provided.''), db)"
  using assms by (auto simp: updateAuthor_def)

theorem updateAuthor_requires_externalId_witness:
  "updateAuthor db0
     \<lparr>UpdateCollectionAuthorInput.externalId = None, name = ''el duderino'',
      slug = ''el-duderino'', bio = None, imageUrl = None\<rparr>
   = (Inl (Error ''externalId must be provided.''), db0) \<and>
   updateAuthor db0
     \<lparr>UpdateCollectionAuthorInput.externalId = Some [], name = ''el duderino'',
      slug = ''el-duderino'', bio = None, imageUrl = None\<rparr>
   = (Inl (Error ''externalId must be provided.''), db0)"
  using
    updateAuthor_requires_externalId
      [of "\<lparr>UpdateCollectionAuthorInput.externalId = None, name = ''el duderino'',
            slug = ''el-duderino'', bio = None, imageUrl = None\<rparr>" db0]
    updateAuthor_requires_externalId
      [of "\<lparr>UpdateCollectionAuthorInput.externalId = Some [], name = ''el duderino'',
            slug = ''el-duderino'', bio = None, imageUrl = None\<rparr>" db0]
  by simp

section \<open>Errors come before writes\<close>

lemma createAuthor_error_tables:
  "fst (createAuthor slugify e db data) = Inl err \<Longrightarrow>
     tables (snd (createAuthor slugify e db data)) = tables db"
  by (simp add: createAuthor_def collectionAuthor_count_def collectionAuthor_create_def Let_def
        split: if_splits)

lemma updateAuthor_error_tables:
  "fst (updateAuthor db data) = Inl err \<Longrightarrow> tables (snd (updateAuthor db data)) = tables db"
  by (simp add: updateAuthor_def collectionAuthor_count_def collectionAuthor_update_def Let_def
        split: if_splits option.splits)

lemma createCollection_error_tables:
  "fst (createCollection e db data) = Inl err \<Longrightarrow>
     tables (snd (createCollection e db data)) = tables db"
  by (simp add: createCollection_def collection_count_def collection_create_def Let_def
        split: if_splits option.splits)

lemma updateCollection_error_tables:
  "fst (updateCollection e db data) = Inl err \<Longrightarrow>
     tables (snd (updateCollection e db data)) = tables db"
  by (auto simp: updateCollection_def getCollection_def collection_count_def
        collection_update_def Let_def split: if_splits option.splits)

text \<open>The four mutations on the colliding inputs of the small store.\<close>

lemma createAuthor_dup:
  "fst (createAuthor hyphenate env0 db0 dup_author) = Inl (Error (author_slug_exists ''walter''))"
  by (simp add: createAuthor_def slug_or_default_def collectionAuthor_count_def fixtures Let_def)

lemma updateAuthor_dup:
  "fst (updateAuthor db0 dup_author_update) = Inl (Error (author_slug_exists ''the-dude''))"
  by (simp add: updateAuthor_def collectionAuthor_count_def fixtures Let_def)

lemma createCollection_dup:
  "fst (createCollection env0 db0 dup_collection) =
     Inl (Error (collection_slug_exists ''let-us-go-bowling''))"
  by (simp add: createCollection_def collection_count_def fixtures Let_def)

lemma updateCollection_dup:
  "fst (updateCollection env0 db0 dup_collection_update) =
     Inl (Error (collection_slug_exists ''let-us-go-bowling''))"
  by (simp add: updateCollection_def getCollection_def collection_count_def fixtures Let_def)

text \<open>
  C9. A mutation that throws leaves the store unchanged: whenever \<^verbatim>\<open>createAuthor\<close>,
  \<^verbatim>\<open>updateAuthor\<close>, \<^verbatim>\<open>createCollection\<close> or \<^verbatim>\<open>updateCollection\<close> ends in an error,
  the tables afterwards are the tables before: no row has been created, updated or
  deleted.
\<close>

theorem mutation_error_leaves_tables:
  "(fst (createAuthor slugify e db a) = Inl err1 \<longrightarrow>
      tables (snd (createAuthor slugify e db a)) = tables db) \<and>
   (fst (updateAuthor db b) = Inl err2 \<longrightarrow>
      tables (snd (updateAuthor db b)) = tables db) \<and>
   (fst (createCollection e db c) = Inl err3 \<longrightarrow>
      tables (snd (createCollection e db c)) = tables db) \<and>
   (fst (updateCollection e db d) = Inl err4 \<longrightarrow>
      tables (snd (updateCollection e db d)) = tables db)"
  using createAuthor_error_tables updateAuthor_error_tables createCollection_error_tables
    updateCollection_error_tables by blast

theorem mutation_error_leaves_tables_witness:
  "fst (createAuthor hyphenate env0 db0 dup_author) =
     Inl (Error (author_slug_exists ''walter'')) \<and>
   tables (snd (createAuthor hyphenate env0 db0 dup_author)) = tables db0 \<and>
   fst (updateAuthor db0 dup_author_update) = Inl (Error (author_slug_exists ''the-dude'')) \<and>
   tables (snd (updateAuthor db0 dup_author_update)) = tables db0 \<and>
   fst (createCollection env0 db0 dup_collection) =
     Inl (Error (collection_slug_exists ''let-us-go-bowling'')) \<and>
   tables (snd (createCollection env0 db0 dup_collection)) = tables db0 \<and>
   fst (updateCollection env0 db0 dup_collection_update) =
     Inl (Error (collection_slug_exists ''let-us-go-bowling'')) \<and>
   tables (snd (updateCollection env0 db0 dup_collection_update)) = tables db0"
  using mutation_error_leaves_tables
      [of hyphenate env0 db0 dup_author "Error (author_slug_exists ''walter'')"
          dup_author_update "Error (author_slug_exists ''the-dude'')"
          dup_collection "Error (collection_slug_exists ''let-us-go-bowling'')"
          dup_collection_update "Error (collection_slug_exists ''let-us-go-bowling'')"]
    createAuthor_dup updateAuthor_dup createCollection_dup updateCollection_dup
  by simp

section \<open>Unique author slugs\<close>

lemma createAuthor_dup_slug:
  "\<exists>a\<in>set (collectionAuthors (tables db)). CollectionAuthor.slug a = slug_or_default slugify data \<Longrightarrow>
   fst (createAuthor slugify e db data) = Inl (Error (author_slug_exists (slug_or_default slugify data)))"
  by (auto simp: createAuthor_def collectionAuthor_count_def Let_def filter_empty_conv)

lemma updateAuthor_dup_slug:
  "UpdateCollectionAuthorInput.externalId data = Some eid \<Longrightarrow> eid \<noteq> [] \<Longrightarrow>
   \<exists>a\<in>set (collectionAuthors (tables db)).
      CollectionAuthor.slug a = UpdateCollectionAuthorInput.slug data \<and> CollectionAuthor.externalId a \<noteq> eid \<Longrightarrow>
   fst (updateAuthor db data) = Inl (Error (author_slug_exists (UpdateCollectionAuthorInput.slug data)))"
  by (auto simp: updateAuthor_def collectionAuthor_count_def Let_def filter_empty_conv)

lemma createAuthor_distinct_slug:
  "distinct (map CollectionAuthor.slug (collectionAuthors (tables db))) \<Longrightarrow>
   distinct (map CollectionAuthor.slug (collectionAuthors (tables (snd (createAuthor slugify e db data)))))"
  by (auto simp: createAuthor_def collectionAuthor_count_def collectionAuthor_create_def Let_def
        filter_empty_conv image_iff)

lemma distinct_slug_update:
  assumes "distinct (map CollectionAuthor.slug xs)" "distinct (map CollectionAuthor.externalId xs)"
    and "\<forall>a\<in>set xs. \<not> (CollectionAuthor.slug a = s \<and> CollectionAuthor.externalId a \<noteq> eid)"
    and "\<And>a. CollectionAuthor.slug (f a) = s"
  shows "distinct (map CollectionAuthor.slug
           (update_first (\<lambda>a. CollectionAuthor.externalId a = eid) f xs))"
proof -
  let ?g = "\<lambda>a. if CollectionAuthor.externalId a = eid then s else CollectionAuthor.slug a"
  have "map CollectionAuthor.slug (update_first (\<lambda>a. CollectionAuthor.externalId a = eid) f xs)
        = map ?g xs"
    using assms(2,4) by (simp add: update_first_map)
  moreover have "distinct xs" using assms(1) by (simp add: distinct_map)
  moreover have "inj_on ?g (set xs)"
  proof (rule inj_onI)
    fix a b assume ab: "a \<in> set xs" "b \<in> set xs" "?g a = ?g b"
    have i1: "inj_on CollectionAuthor.slug (set xs)" using assms(1) by (simp add: distinct_map)
    have i2: "inj_on CollectionAuthor.externalId (set xs)" using assms(2) by (simp add: distinct_map)
    show "a = b"
    proof (cases "CollectionAuthor.externalId a = eid")
      case True
      show ?thesis
      proof (cases "CollectionAuthor.externalId b = eid")
        case True
        with \<open>CollectionAuthor.externalId a = eid\<close> i2 ab show ?thesis by (simp add: inj_on_def)
      next
        case False
        with True ab assms(3) show ?thesis by auto
      qed
    next
      case False
      show ?thesis
      proof (cases "CollectionAuthor.externalId b = eid")
        case True
        with False ab assms(3) show ?thesis by auto
      next
        case False
        with \<open>CollectionAuthor.externalId a \<noteq> eid\<close> ab i1 show ?thesis by (simp add: inj_on_def)
      qed
    qed
  qed
  ultimately show ?thesis by (simp add: distinct_map)
qed

lemma updateAuthor_distinct_slug:
  assumes "distinct (map CollectionAuthor.slug (collectionAuthors (tables db)))"
    and "distinct (map CollectionAuthor.externalId (collectionAuthors (tables db)))"
  shows "distinct (map CollectionAuthor.slug (collectionAuthors (tables (snd (updateAuthor db data)))))"
proof (cases "fst (updateAuthor db data)")
  case (Inl err)
  then show ?thesis using assms(1) by (simp add: updateAuthor_error_tables)
next
  case (Inr a)
  then obtain eid where eid: "UpdateCollectionAuthorInput.externalId data = Some eid" "eid \<noteq> []"
    and none: "\<forall>a\<in>set (collectionAuthors (tables db)).
        \<not> (CollectionAuthor.slug a = UpdateCollectionAuthorInput.slug data \<and> CollectionAuthor.externalId a \<noteq> eid)"
    by (auto simp: updateAuthor_def collectionAuthor_count_def Let_def filter_empty_conv
        split: if_splits option.splits)
  have "distinct (map CollectionAuthor.slug
           (update_first (\<lambda>a. CollectionAuthor.externalId a = eid)
              (apply_UpdateCollectionAuthorInput eid data) (collectionAuthors (tables db))))"
    using assms none by (rule distinct_slug_update) (simp add: apply_UpdateCollectionAuthorInput_def)
  with eid none assms(1) show ?thesis
    by (auto simp: updateAuthor_def collectionAuthor_count_def collectionAuthor_update_def Let_def
        filter_empty_conv split: option.splits)
qed

text \<open>
  C4. Author slugs are unique. \<^verbatim>\<open>createAuthor\<close> throws "An author with the slug
  "<slug>" already exists" when an author has the slug the new row would get.
  \<^verbatim>\<open>updateAuthor\<close>, given an \<^verbatim>\<open>externalId\<close>, throws the same error when an author
  with a different \<^verbatim>\<open>externalId\<close> has the input slug. So no two authors share a slug
  after \<^verbatim>\<open>createAuthor\<close> or \<^verbatim>\<open>updateAuthor\<close> if none did before (for the update,
  \<^verbatim>\<open>externalId\<close> being the unique key it is addressed by).
\<close>

theorem author_slugs_unique:
  "((\<exists>x\<in>set (collectionAuthors (tables db)).
        CollectionAuthor.slug x = slug_or_default slugify a) \<longrightarrow>
      fst (createAuthor slugify e db a) =
        Inl (Error (author_slug_exists (slug_or_default slugify a)))) \<and>
   (UpdateCollectionAuthorInput.externalId b = Some eid \<and> eid \<noteq> [] \<and>
    (\<exists>x\<in>set (collectionAuthors (tables db)).
        CollectionAuthor.slug x = UpdateCollectionAuthorInput.slug b \<and>
        CollectionAuthor.externalId x \<noteq> eid) \<longrightarrow>
      fst (updateAuthor db b) =
        Inl (Error (author_slug_exists (UpdateCollectionAuthorInput.slug b)))) \<and>
   (distinct (map CollectionAuthor.slug (collectionAuthors (tables db))) \<longrightarrow>
      distinct (map CollectionAuthor.slug
        (collectionAuthors (tables (snd (createAuthor slugify e db a')))))) \<and>
   (distinct (map CollectionAuthor.slug (collectionAuthors (tables db))) \<and>
    distinct (map CollectionAuthor.externalId (collectionAuthors (tables db))) \<longrightarrow>
      distinct (map CollectionAuthor.slug
        (collectionAuthors (tables (snd (updateAuthor db b'))))))"
  using createAuthor_dup_slug [of db slugify a e] updateAuthor_dup_slug [of b eid db]
    createAuthor_distinct_slug [of db slugify e a'] updateAuthor_distinct_slug [of db b']
  by blast

lemma createAuthor_new:
  "createAuthor hyphenate env0 db0 new_author =
     (Inr \<lparr>CollectionAuthor.id = 9, externalId = ''u-9'', name = ''walter man'',
            slug = ''walter-man'', bio = None, imageUrl = None\<rparr>,
      \<lparr>tables = (tables db0)\<lparr>collectionAuthors := [walter, the_dude,
          \<lparr>CollectionAuthor.id = 9, externalId = ''u-9'', name = ''walter man'',
            slug = ''walter-man'', bio = None, imageUrl = None\<rparr>]\<rparr>,
       calls = [(D_collectionAuthor, Count), (D_collectionAuthor, Create)]\<rparr>)"
  by (simp add: createAuthor_def slug_or_default_def collectionAuthor_count_def
      collectionAuthor_create_def logged_def fixtures Let_def)

lemma updateAuthor_el_duderino:
  "updateAuthor db0 el_duderino =
     (Inr (the_dude\<lparr>CollectionAuthor.name := ''el duderino'', CollectionAuthor.slug := ''el-duderino'',
            CollectionAuthor.bio := Some ''he abides, man''\<rparr>),
      \<lparr>tables = (tables db0)\<lparr>collectionAuthors := [walter,
          the_dude\<lparr>CollectionAuthor.name := ''el duderino'', CollectionAuthor.slug := ''el-duderino'',
            CollectionAuthor.bio := Some ''he abides, man''\<rparr>]\<rparr>,
       calls = [(D_collectionAuthor, Count), (D_collectionAuthor, Update)]\<rparr>)"
  by (simp add: updateAuthor_def collectionAuthor_count_def apply_UpdateCollectionAuthorInput_def
      collectionAuthor_update_def logged_def fixtures Let_def)

theorem author_slugs_unique_witness:
  "fst (createAuthor hyphenate env0 db0 dup_author) =
     Inl (Error (author_slug_exists ''walter'')) \<and>
   fst (updateAuthor db0 dup_author_update) = Inl (Error (author_slug_exists ''the-dude'')) \<and>
   distinct (map CollectionAuthor.slug (collectionAuthors (tables db0))) \<and>
   distinct (map CollectionAuthor.externalId (collectionAuthors (tables db0))) \<and>
   map CollectionAuthor.slug
     (collectionAuthors (tables (snd (createAuthor hyphenate env0 db0 new_author)))) =
     [''walter'', ''the-dude'', ''walter-man''] \<and>
   distinct (map CollectionAuthor.slug
     (collectionAuthors (tables (snd (createAuthor hyphenate env0 db0 new_author))))) \<and>
   map CollectionAuthor.slug (collectionAuthors (tables (snd (updateAuthor db0 el_duderino)))) =
     [''walter'', ''el-duderino''] \<and>
   distinct (map CollectionAuthor.slug
     (collectionAuthors (tables (snd (updateAuthor db0 el_duderino)))))"
proof -
  have h1: "\<exists>x\<in>set (collectionAuthors (tables db0)).
              CollectionAuthor.slug x = slug_or_default hyphenate dup_author"
    by (simp add: slug_or_default_def fixtures)
  have h2: "UpdateCollectionAuthorInput.externalId dup_author_update = Some ''a-1'' \<and>
            ''a-1'' \<noteq> [] \<and>
            (\<exists>x\<in>set (collectionAuthors (tables db0)).
               CollectionAuthor.slug x = UpdateCollectionAuthorInput.slug dup_author_update \<and>
               CollectionAuthor.externalId x \<noteq> ''a-1'')"
    by (simp add: fixtures)
  have h3: "distinct (map CollectionAuthor.slug (collectionAuthors (tables db0)))"
    by (simp add: fixtures)
  have h4: "distinct (map CollectionAuthor.externalId (collectionAuthors (tables db0)))"
    by (simp add: fixtures)
  have s1: "slug_or_default hyphenate dup_author = ''walter''"
    by (simp add: slug_or_default_def fixtures)
  have s2: "UpdateCollectionAuthorInput.slug dup_author_update = ''the-dude''"
    by (simp add: fixtures)
  have m1: "map CollectionAuthor.slug
     (collectionAuthors (tables (snd (createAuthor hyphenate env0 db0 new_author)))) =
     [''walter'', ''the-dude'', ''walter-man'']"
    by (simp add: createAuthor_new) (simp add: fixtures)
  have m2: "map CollectionAuthor.slug (collectionAuthors (tables (snd (updateAuthor db0 el_duderino)))) =
     [''walter'', ''el-duderino'']"
    by (simp add: updateAuthor_el_duderino) (simp add: fixtures)
  from author_slugs_unique
         [of db0 hyphenate dup_author env0 dup_author_update "''a-1''" new_author el_duderino]
    h1 h2 h3 h4 s1 s2 m1 m2
  show ?thesis by simp
qed


section \<open>The slug of a new author\<close>

text \<open>
  C5. When \<^verbatim>\<open>createAuthor\<close> creates an author from an input whose slug is absent or
  empty, the slug of the created author is the slugified name of the input; when the
  input supplies a slug, the created author has that slug. The created author is the row
  added to the table.
\<close>

theorem createAuthor_slug:
  assumes "fst (createAuthor slugify e db data) = Inr a"
  shows "(CreateCollectionAuthorInput.slug data = None \<or>
          CreateCollectionAuthorInput.slug data = Some [] \<longrightarrow>
            CollectionAuthor.slug a = slugify (CreateCollectionAuthorInput.name data)) \<and>
         (\<forall>s. CreateCollectionAuthorInput.slug data = Some s \<and> s \<noteq> [] \<longrightarrow>
            CollectionAuthor.slug a = s) \<and>
         collectionAuthors (tables (snd (createAuthor slugify e db data))) =
           collectionAuthors (tables db) @ [a]"
  using assms
  by (auto simp: createAuthor_def slug_or_default_def collectionAuthor_count_def
      collectionAuthor_create_def Let_def split: if_splits)

lemma createAuthor_his_dudeness:
  "fst (createAuthor hyphenate env0 db0 his_dudeness) =
     Inr \<lparr>CollectionAuthor.id = 9, externalId = ''u-9'', name = ''the dude'',
           slug = ''his-dudeness'', bio = Some ''the dude abides'',
           imageUrl = Some ''https://i.imgur.com/YeydXfW.gif''\<rparr>"
  by (simp add: createAuthor_def slug_or_default_def collectionAuthor_count_def
      collectionAuthor_create_def fixtures Let_def)

theorem createAuthor_slug_witness:
  "fst (createAuthor hyphenate env0 db0 new_author) =
     Inr \<lparr>CollectionAuthor.id = 9, externalId = ''u-9'', name = ''walter man'',
           slug = ''walter-man'', bio = None, imageUrl = None\<rparr> \<and>
   fst (createAuthor hyphenate env0 db0 his_dudeness) =
     Inr \<lparr>CollectionAuthor.id = 9, externalId = ''u-9'', name = ''the dude'',
           slug = ''his-dudeness'', bio = Some ''the dude abides'',
           imageUrl = Some ''https://i.imgur.com/YeydXfW.gif''\<rparr> \<and>
   CreateCollectionAuthorInput.slug new_author = None \<and>
   CollectionAuthor.slug
     \<lparr>CollectionAuthor.id = 9, externalId = ''u-9'', name = ''walter man'',
      slug = ''walter-man'', bio = None, imageUrl = None\<rparr> =
     hyphenate (CreateCollectionAuthorInput.name new_author) \<and>
   CreateCollectionAuthorInput.slug his_dudeness = Some ''his-dudeness'' \<and>
   CollectionAuthor.slug
     \<lparr>CollectionAuthor.id = 9, externalId = ''u-9'', name = ''the dude'',
      slug = ''his-dudeness'', bio = Some ''the dude abides'',
      imageUrl = Some ''https://i.imgur.com/YeydXfW.gif''\<rparr> = ''his-dudeness'' \<and>
   collectionAuthors (tables (snd (createAuthor hyphenate env0 db0 new_author))) =
     collectionAuthors (tables db0) @
       [\<lparr>CollectionAuthor.id = 9, externalId = ''u-9'', name = ''walter man'',
         slug = ''walter-man'', bio = None, imageUrl = None\<rparr>]"
proof -
  have a: "fst (createAuthor hyphenate env0 db0 new_author) =
     Inr \<lparr>CollectionAuthor.id = 9, externalId = ''u-9'', name = ''walter man'',
           slug = ''walter-man'', bio = None, imageUrl = None\<rparr>"
    by (simp add: createAuthor_new)
  have n: "CreateCollectionAuthorInput.slug new_author = None"
    by (simp add: fixtures)
  have h: "CreateCollectionAuthorInput.slug his_dudeness = Some ''his-dudeness''"
    by (simp add: fixtures)
  from createAuthor_slug [OF a] createAuthor_slug [OF createAuthor_his_dudeness] n h a
    createAuthor_his_dudeness
  show ?thesis by simp
qed

section \<open>A new collection is a draft\<close>

text \<open>
  C7. The collection that \<^verbatim>\<open>createCollection\<close> creates has the status draft and an
  empty \<^verbatim>\<open>publishedAt\<close>, whatever the slug, the title and the author of the input are;
  it is the row added to the table.
\<close>

theorem createCollection_defaults:
  assumes "fst (createCollection e db data) = Inr r"
  shows "Collection.status (collectionRow r) = DRAFT \<and>
         Collection.publishedAt (collectionRow r) = None \<and>
         collections (tables (snd (createCollection e db data))) =
           collections (tables db) @ [collectionRow r]"
  using assms
  by (auto simp: createCollection_def collection_count_def collection_create_def
      new_Collection_def Let_def split: if_splits option.splits)

lemma createCollection_walter_bowls:
  "fst (createCollection env0 db0 walter_bowls) =
     Inr \<lparr>collectionRow =
            \<lparr>Collection.id = 9, externalId = ''u-9'', slug = ''walter-bowls'',
             title = ''walter bowls'', status = DRAFT, publishedAt = None, authors = [1]\<rparr>,
          authors = [walter], stories = []\<rparr>"
  by (simp add: createCollection_def collection_count_def collection_create_def
      new_Collection_def withAuthorsAndStories_def fixtures Let_def)

theorem createCollection_defaults_witness:
  "fst (createCollection env0 db0 walter_bowls) =
     Inr \<lparr>collectionRow =
            \<lparr>Collection.id = 9, externalId = ''u-9'', slug = ''walter-bowls'',
             title = ''walter bowls'', status = DRAFT, publishedAt = None, authors = [1]\<rparr>,
          authors = [walter], stories = []\<rparr> \<and>
   collections (tables (snd (createCollection env0 db0 walter_bowls))) =
     [bowling, ringing,
      \<lparr>Collection.id = 9, externalId = ''u-9'', slug = ''walter-bowls'',
       title = ''walter bowls'', status = DRAFT, publishedAt = None, authors = [1]\<rparr>]"
  using createCollection_defaults [OF createCollection_walter_bowls] createCollection_walter_bowls
  by (simp add: db0_def)


section \<open>Unique collection slugs\<close>

lemma createCollection_dup_slug:
  "\<exists>x\<in>set (collections (tables db)). Collection.slug x = CreateCollectionInput.slug c \<Longrightarrow>
   fst (createCollection e db c) = Inl (Error (collection_slug_exists (CreateCollectionInput.slug c)))"
  by (auto simp: createCollection_def collection_count_def Let_def filter_empty_conv)

lemma updateCollection_dup_slug:
  assumes "find (\<lambda>x. Collection.externalId x = UpdateCollectionInput.externalId u)
             (collections (tables db)) = Some old"
    and "Collection.slug old \<noteq> UpdateCollectionInput.slug u"
    and "\<exists>x\<in>set (collections (tables db)).
           Collection.slug x = UpdateCollectionInput.slug u \<and>
           Collection.externalId x \<noteq> Collection.externalId old"
  shows "fst (updateCollection e db u) =
           Inl (Error (collection_slug_exists (UpdateCollectionInput.slug u)))"
  using assms
  by (auto simp: updateCollection_def getCollection_def collection_count_def Let_def
      filter_empty_conv)

lemma externalId_stamp_publishedAt [simp]:
  "UpdateCollectionInput.externalId (stamp_publishedAt e old u) = UpdateCollectionInput.externalId u"
  by (simp add: stamp_publishedAt_def)

text \<open>What a successful update has done.\<close>

lemma updateCollection_Inr_author:
  assumes "find (\<lambda>x. Collection.externalId x = UpdateCollectionInput.externalId u)
             (collections (tables db)) = Some old"
    and "fst (updateCollection e db u) = Inr r"
  shows "\<exists>a. find (\<lambda>a. CollectionAuthor.externalId a = UpdateCollectionInput.authorExternalId u)
               (collectionAuthors (tables db)) = Some a"
  using assms
  by (auto simp: updateCollection_def getCollection_def collection_count_def
      collection_update_def Let_def split: if_splits option.splits)

lemma updateCollection_Inr:
  assumes "find (\<lambda>x. Collection.externalId x = UpdateCollectionInput.externalId u)
             (collections (tables db)) = Some old"
    and "find (\<lambda>a. CollectionAuthor.externalId a = UpdateCollectionInput.authorExternalId u)
               (collectionAuthors (tables db)) = Some a"
    and "fst (updateCollection e db u) = Inr r"
  shows "collectionRow r =
            (apply_UpdateCollectionInput (stamp_publishedAt e old u) old)
              \<lparr>Collection.authors := [CollectionAuthor.id a]\<rparr> \<and>
          collections (tables (snd (updateCollection e db u))) =
            update_first (\<lambda>x. Collection.externalId x = UpdateCollectionInput.externalId u)
              (\<lambda>c. (apply_UpdateCollectionInput (stamp_publishedAt e old u) c)
                      \<lparr>Collection.authors := [CollectionAuthor.id a]\<rparr>)
              (collections (tables db))"
  using assms
  by (auto simp: updateCollection_def getCollection_def collection_count_def
      collection_update_def Let_def split: if_splits option.splits)

lemma updateCollection_same_slug:
  assumes "find (\<lambda>x. Collection.externalId x = UpdateCollectionInput.externalId u)
             (collections (tables db)) = Some old"
    and "Collection.slug old = UpdateCollectionInput.slug u"
  shows "fst (updateCollection e db u) \<noteq> Inl (Error m)"
    and "\<exists>a\<in>set (collectionAuthors (tables db)).
           CollectionAuthor.externalId a = UpdateCollectionInput.authorExternalId u \<Longrightarrow>
         \<exists>r. fst (updateCollection e db u) = Inr r"
proof -
  show "fst (updateCollection e db u) \<noteq> Inl (Error m)"
    using assms
    by (auto simp: updateCollection_def getCollection_def collection_count_def
        collection_update_def Let_def split: if_splits option.splits)
next
  assume "\<exists>a\<in>set (collectionAuthors (tables db)).
           CollectionAuthor.externalId a = UpdateCollectionInput.authorExternalId u"
  then have "find (\<lambda>a. CollectionAuthor.externalId a = UpdateCollectionInput.authorExternalId u)
               (collectionAuthors (tables db)) \<noteq> None"
    by (auto simp: find_None_iff)
  with assms show "\<exists>r. fst (updateCollection e db u) = Inr r"
    by (auto simp: updateCollection_def getCollection_def collection_count_def
        collection_update_def Let_def split: if_splits option.splits)
qed

text \<open>
  C2. Collection slugs are unique. \<^verbatim>\<open>createCollection\<close> throws "A collection with the
  slug <slug> already exists" when a collection has the input slug. \<^verbatim>\<open>updateCollection\<close>
  throws the same error when the input changes the slug of the collection it addresses
  to one that a collection with another \<^verbatim>\<open>externalId\<close> has. An update that keeps the
  slug of its collection throws no error of its own, and succeeds when the author to
  connect exists.
\<close>

theorem collection_slugs_unique:
  "((\<exists>x\<in>set (collections (tables db)). Collection.slug x = CreateCollectionInput.slug c) \<longrightarrow>
      fst (createCollection e db c) =
        Inl (Error (collection_slug_exists (CreateCollectionInput.slug c)))) \<and>
   (find (\<lambda>x. Collection.externalId x = UpdateCollectionInput.externalId u)
      (collections (tables db)) = Some old \<and>
    Collection.slug old \<noteq> UpdateCollectionInput.slug u \<and>
    (\<exists>x\<in>set (collections (tables db)).
        Collection.slug x = UpdateCollectionInput.slug u \<and>
        Collection.externalId x \<noteq> Collection.externalId old) \<longrightarrow>
      fst (updateCollection e db u) =
        Inl (Error (collection_slug_exists (UpdateCollectionInput.slug u)))) \<and>
   (find (\<lambda>x. Collection.externalId x = UpdateCollectionInput.externalId u')
      (collections (tables db)) = Some old' \<and>
    Collection.slug old' = UpdateCollectionInput.slug u' \<longrightarrow>
      (\<forall>m. fst (updateCollection e db u') \<noteq> Inl (Error m)) \<and>
      ((\<exists>a\<in>set (collectionAuthors (tables db)).
          CollectionAuthor.externalId a = UpdateCollectionInput.authorExternalId u') \<longrightarrow>
       (\<exists>r. fst (updateCollection e db u') = Inr r)))"
  using createCollection_dup_slug [of db c e] updateCollection_dup_slug [of u db old e]
    updateCollection_same_slug [of u' db old' e]
  by blast

lemma updateCollection_second_iteration:
  "updateCollection env0 db0 second_iteration =
     (Inr \<lparr>collectionRow =
             bowling\<lparr>Collection.title := ''second iteration'', Collection.status := PUBLISHED,
               Collection.publishedAt := Some 1000\<rparr>,
           authors = [walter],
           stories = [\<lparr>storyRow = a_story, authors = [donny, maude]\<rparr>]\<rparr>,
      \<lparr>tables = (tables db0)\<lparr>collections :=
          [bowling\<lparr>Collection.title := ''second iteration'', Collection.status := PUBLISHED,
             Collection.publishedAt := Some 1000\<rparr>, ringing]\<rparr>,
       calls = [(D_collection, FindUnique), (D_collection, Update)]\<rparr>)"
  by (simp add: updateCollection_def getCollection_def collection_count_def
      collection_update_def apply_UpdateCollectionInput_def withAuthorsAndStories_def
      storyWithAuthors_def stamp_publishedAt_def logged_def fixtures Let_def)

lemma updateCollection_third_iteration:
  "updateCollection env0 db0 third_iteration =
     (Inr \<lparr>collectionRow = ringing\<lparr>Collection.title := ''third iteration''\<rparr>,
           authors = [the_dude], stories = []\<rparr>,
      \<lparr>tables = (tables db0)\<lparr>collections :=
          [bowling, ringing\<lparr>Collection.title := ''third iteration''\<rparr>]\<rparr>,
       calls = [(D_collection, FindUnique), (D_collection, Update)]\<rparr>)"
  by (simp add: updateCollection_def getCollection_def collection_count_def
      collection_update_def apply_UpdateCollectionInput_def withAuthorsAndStories_def
      storyWithAuthors_def stamp_publishedAt_def logged_def fixtures Let_def)

lemma updateCollection_redated:
  "updateCollection env0 db0 redated =
     (Inr \<lparr>collectionRow = ringing\<lparr>Collection.publishedAt := Some 99\<rparr>,
           authors = [the_dude], stories = []\<rparr>,
      \<lparr>tables = (tables db0)\<lparr>collections :=
          [bowling, ringing\<lparr>Collection.publishedAt := Some 99\<rparr>]\<rparr>,
       calls = [(D_collection, FindUnique), (D_collection, Update)]\<rparr>)"
  by (simp add: updateCollection_def getCollection_def collection_count_def
      collection_update_def apply_UpdateCollectionInput_def withAuthorsAndStories_def
      storyWithAuthors_def stamp_publishedAt_def logged_def fixtures Let_def)


lemma updateCollection_first_iteration:
  "updateCollection env0 db0 first_iteration =
     (Inr \<lparr>collectionRow = bowling\<lparr>Collection.title := ''first iteration''\<rparr>,
           authors = [walter],
           stories = [\<lparr>storyRow = a_story, authors = [donny, maude]\<rparr>]\<rparr>,
      \<lparr>tables = (tables db0)\<lparr>collections :=
          [bowling\<lparr>Collection.title := ''first iteration''\<rparr>, ringing]\<rparr>,
       calls = [(D_collection, FindUnique), (D_collection, Update)]\<rparr>)"
  by (simp add: updateCollection_def getCollection_def collection_count_def
      collection_update_def apply_UpdateCollectionInput_def withAuthorsAndStories_def
      storyWithAuthors_def stamp_publishedAt_def logged_def fixtures Let_def)

lemma updateCollection_unpublished:
  "updateCollection env0 db0 unpublished =
     (Inr \<lparr>collectionRow = ringing\<lparr>Collection.status := DRAFT\<rparr>,
           authors = [the_dude], stories = []\<rparr>,
      \<lparr>tables = (tables db0)\<lparr>collections :=
          [bowling, ringing\<lparr>Collection.status := DRAFT\<rparr>]\<rparr>,
       calls = [(D_collection, FindUnique), (D_collection, Update)]\<rparr>)"
  by (simp add: updateCollection_def getCollection_def collection_count_def
      collection_update_def apply_UpdateCollectionInput_def withAuthorsAndStories_def
      storyWithAuthors_def stamp_publishedAt_def logged_def fixtures Let_def)

lemma updateCollection_cleared:
  "updateCollection env0 db0 cleared =
     (Inr \<lparr>collectionRow = ringing\<lparr>Collection.publishedAt := None\<rparr>,
           authors = [the_dude], stories = []\<rparr>,
      \<lparr>tables = (tables db0)\<lparr>collections :=
          [bowling, ringing\<lparr>Collection.publishedAt := None\<rparr>]\<rparr>,
       calls = [(D_collection, FindUnique), (D_collection, Update)]\<rparr>)"
  by (simp add: updateCollection_def getCollection_def collection_count_def
      collection_update_def apply_UpdateCollectionInput_def withAuthorsAndStories_def
      storyWithAuthors_def stamp_publishedAt_def logged_def fixtures Let_def)

theorem collection_slugs_unique_witness:
  "fst (createCollection env0 db0 dup_collection) =
     Inl (Error (collection_slug_exists ''let-us-go-bowling'')) \<and>
   fst (updateCollection env0 db0 dup_collection_update) =
     Inl (Error (collection_slug_exists ''let-us-go-bowling'')) \<and>
   Collection.slug bowling = UpdateCollectionInput.slug second_iteration \<and>
   fst (updateCollection env0 db0 second_iteration) =
     Inr \<lparr>collectionRow =
            bowling\<lparr>Collection.title := ''second iteration'', Collection.status := PUBLISHED,
              Collection.publishedAt := Some 1000\<rparr>,
          authors = [walter],
          stories = [\<lparr>storyRow = a_story, authors = [donny, maude]\<rparr>]\<rparr>"
proof -
  have h1: "\<exists>x\<in>set (collections (tables db0)).
              Collection.slug x = CreateCollectionInput.slug dup_collection"
    by (simp add: fixtures)
  have h2: "find (\<lambda>x. Collection.externalId x = UpdateCollectionInput.externalId dup_collection_update)
              (collections (tables db0)) = Some ringing \<and>
            Collection.slug ringing \<noteq> UpdateCollectionInput.slug dup_collection_update \<and>
            (\<exists>x\<in>set (collections (tables db0)).
               Collection.slug x = UpdateCollectionInput.slug dup_collection_update \<and>
               Collection.externalId x \<noteq> Collection.externalId ringing)"
    by (simp add: fixtures)
  have h3: "find (\<lambda>x. Collection.externalId x = UpdateCollectionInput.externalId second_iteration)
              (collections (tables db0)) = Some bowling \<and>
            Collection.slug bowling = UpdateCollectionInput.slug second_iteration"
    by (simp add: fixtures)
  have h4: "\<exists>a\<in>set (collectionAuthors (tables db0)).
              CollectionAuthor.externalId a = UpdateCollectionInput.authorExternalId second_iteration"
    by (simp add: fixtures)
  have s1: "CreateCollectionInput.slug dup_collection = ''let-us-go-bowling''"
    and s2: "UpdateCollectionInput.slug dup_collection_update = ''let-us-go-bowling''"
    by (simp_all add: fixtures)
  from collection_slugs_unique
         [of db0 dup_collection env0 dup_collection_update ringing second_iteration bowling]
    h1 h2 h3 h4 s1 s2 updateCollection_second_iteration
  show ?thesis by simp
qed

section \<open>The time of publication\<close>

text \<open>
  C1, as amended. An update that succeeds changes one row of the table, the existing
  row of the collection, into the row it returns, and that row is what a lookup finds
  afterwards. Its \<^verbatim>\<open>publishedAt\<close> is set to the current time on the transition into
  published status and only there: when the status of the existing row is not published
  and the status of the input is published, it is the current time, whatever the input
  carries. On every other update, those of a collection that stays published among
  them, an input without a \<^verbatim>\<open>publishedAt\<close> property leaves it as it was, and an input
  with one, a date or \<^verbatim>\<open>null\<close>, has it written as given.
\<close>

theorem updateCollection_publishedAt:
  assumes "find (\<lambda>x. Collection.externalId x = UpdateCollectionInput.externalId u)
             (collections (tables db)) = Some old"
    and "fst (updateCollection e db u) = Inr r"
  shows "find (\<lambda>x. Collection.externalId x = UpdateCollectionInput.externalId u)
           (collections (tables (snd (updateCollection e db u)))) = Some (collectionRow r) \<and>
         (\<exists>k<length (collections (tables db)).
            collections (tables db) ! k = old \<and>
            collections (tables (snd (updateCollection e db u))) =
              (collections (tables db))[k := collectionRow r]) \<and>
         (Collection.status old \<noteq> PUBLISHED \<and> UpdateCollectionInput.status u = Some PUBLISHED \<longrightarrow>
            Collection.publishedAt (collectionRow r) = Some (now e)) \<and>
         (\<not> (Collection.status old \<noteq> PUBLISHED \<and>
              UpdateCollectionInput.status u = Some PUBLISHED) \<and>
          UpdateCollectionInput.publishedAt u = None \<longrightarrow>
            Collection.publishedAt (collectionRow r) = Collection.publishedAt old) \<and>
         (Collection.status old = PUBLISHED \<and> Collection.status (collectionRow r) = PUBLISHED \<and>
          UpdateCollectionInput.publishedAt u = None \<longrightarrow>
            Collection.publishedAt (collectionRow r) = Collection.publishedAt old) \<and>
         (\<forall>v. \<not> (Collection.status old \<noteq> PUBLISHED \<and>
                  UpdateCollectionInput.status u = Some PUBLISHED) \<and>
              UpdateCollectionInput.publishedAt u = Some v \<longrightarrow>
            Collection.publishedAt (collectionRow r) = v)"
proof -
  from updateCollection_Inr_author [OF assms] obtain a where
    "find (\<lambda>a. CollectionAuthor.externalId a = UpdateCollectionInput.authorExternalId u)
       (collectionAuthors (tables db)) = Some a" ..
  from updateCollection_Inr [OF assms(1) this assms(2)] have
    row: "collectionRow r =
            (apply_UpdateCollectionInput (stamp_publishedAt e old u) old)
              \<lparr>Collection.authors := [CollectionAuthor.id a]\<rparr>"
    and tab: "collections (tables (snd (updateCollection e db u))) =
            update_first (\<lambda>x. Collection.externalId x = UpdateCollectionInput.externalId u)
              (\<lambda>c. (apply_UpdateCollectionInput (stamp_publishedAt e old u) c)
                      \<lparr>Collection.authors := [CollectionAuthor.id a]\<rparr>)
              (collections (tables db))"
    by blast+
  have found: "find (\<lambda>x. Collection.externalId x = UpdateCollectionInput.externalId u)
           (collections (tables (snd (updateCollection e db u)))) = Some (collectionRow r)"
    unfolding tab row
    using find_update_first [OF assms(1),
        where f = "\<lambda>c. (apply_UpdateCollectionInput (stamp_publishedAt e old u) c)
                      \<lparr>Collection.authors := [CollectionAuthor.id a]\<rparr>"]
    by (simp add: apply_UpdateCollectionInput_def)
  have one: "\<exists>k<length (collections (tables db)).
            collections (tables db) ! k = old \<and>
            collections (tables (snd (updateCollection e db u))) =
              (collections (tables db))[k := collectionRow r]"
    unfolding tab row
    by (rule update_first_list_update [OF assms(1)])
  have stamped: "Collection.status old \<noteq> PUBLISHED \<and>
      UpdateCollectionInput.status u = Some PUBLISHED \<longrightarrow>
        Collection.publishedAt (collectionRow r) = Some (now e)"
    by (simp add: row stamp_publishedAt_def apply_UpdateCollectionInput_def)
  have kept: "\<not> (Collection.status old \<noteq> PUBLISHED \<and>
        UpdateCollectionInput.status u = Some PUBLISHED) \<and>
      UpdateCollectionInput.publishedAt u = None \<longrightarrow>
        Collection.publishedAt (collectionRow r) = Collection.publishedAt old"
    by (simp add: row stamp_publishedAt_def apply_UpdateCollectionInput_def)
  have stays: "Collection.status old = PUBLISHED \<and>
      Collection.status (collectionRow r) = PUBLISHED \<and>
      UpdateCollectionInput.publishedAt u = None \<longrightarrow>
        Collection.publishedAt (collectionRow r) = Collection.publishedAt old"
    by (simp add: row stamp_publishedAt_def apply_UpdateCollectionInput_def)
  have given: "\<forall>v. \<not> (Collection.status old \<noteq> PUBLISHED \<and>
          UpdateCollectionInput.status u = Some PUBLISHED) \<and>
        UpdateCollectionInput.publishedAt u = Some v \<longrightarrow>
          Collection.publishedAt (collectionRow r) = v"
    by (simp add: row stamp_publishedAt_def apply_UpdateCollectionInput_def)
  from found one stamped kept stays given show ?thesis
    by (intro conjI)
qed

theorem updateCollection_publishedAt_witness:
  "Collection.status bowling = DRAFT \<and> Collection.publishedAt bowling = None \<and>
   Collection.status ringing = PUBLISHED \<and> Collection.publishedAt ringing = Some 5 \<and>
   now env0 = 1000 \<and>
   fst (updateCollection env0 db0 second_iteration) =
     Inr \<lparr>collectionRow =
            bowling\<lparr>Collection.title := ''second iteration'', Collection.status := PUBLISHED,
              Collection.publishedAt := Some 1000\<rparr>,
          authors = [walter],
          stories = [\<lparr>storyRow = a_story, authors = [donny, maude]\<rparr>]\<rparr> \<and>
   Collection.publishedAt
     (bowling\<lparr>Collection.title := ''second iteration'', Collection.status := PUBLISHED,
        Collection.publishedAt := Some 1000\<rparr>) = Some (now env0) \<and>
   fst (updateCollection env0 db0 first_iteration) =
     Inr \<lparr>collectionRow = bowling\<lparr>Collection.title := ''first iteration''\<rparr>,
          authors = [walter],
          stories = [\<lparr>storyRow = a_story, authors = [donny, maude]\<rparr>]\<rparr> \<and>
   Collection.publishedAt (bowling\<lparr>Collection.title := ''first iteration''\<rparr>) =
     Collection.publishedAt bowling \<and>
   fst (updateCollection env0 db0 third_iteration) =
     Inr \<lparr>collectionRow = ringing\<lparr>Collection.title := ''third iteration''\<rparr>,
          authors = [the_dude], stories = []\<rparr> \<and>
   Collection.publishedAt (ringing\<lparr>Collection.title := ''third iteration''\<rparr>) =
     Collection.publishedAt ringing \<and>
   fst (updateCollection env0 db0 unpublished) =
     Inr \<lparr>collectionRow = ringing\<lparr>Collection.status := DRAFT\<rparr>,
          authors = [the_dude], stories = []\<rparr> \<and>
   Collection.publishedAt (ringing\<lparr>Collection.status := DRAFT\<rparr>) =
     Collection.publishedAt ringing \<and>
   fst (updateCollection env0 db0 cleared) =
     Inr \<lparr>collectionRow = ringing\<lparr>Collection.publishedAt := None\<rparr>,
          authors = [the_dude], stories = []\<rparr> \<and>
   Collection.publishedAt (ringing\<lparr>Collection.publishedAt := None\<rparr>) = None \<and>
   find (\<lambda>x. Collection.externalId x = ''c-2'')
     (collections (tables (snd (updateCollection env0 db0 third_iteration)))) =
     Some (ringing\<lparr>Collection.title := ''third iteration''\<rparr>)"
proof -
  have f1: "find (\<lambda>x. Collection.externalId x = UpdateCollectionInput.externalId second_iteration)
              (collections (tables db0)) = Some bowling"
    and f0: "find (\<lambda>x. Collection.externalId x = UpdateCollectionInput.externalId first_iteration)
              (collections (tables db0)) = Some bowling"
    and f2: "find (\<lambda>x. Collection.externalId x = UpdateCollectionInput.externalId third_iteration)
              (collections (tables db0)) = Some ringing"
    and f3: "find (\<lambda>x. Collection.externalId x = UpdateCollectionInput.externalId unpublished)
              (collections (tables db0)) = Some ringing"
    and f4: "find (\<lambda>x. Collection.externalId x = UpdateCollectionInput.externalId cleared)
              (collections (tables db0)) = Some ringing"
    by (simp_all add: fixtures)
  have r1: "fst (updateCollection env0 db0 second_iteration) =
     Inr \<lparr>collectionRow =
            bowling\<lparr>Collection.title := ''second iteration'', Collection.status := PUBLISHED,
              Collection.publishedAt := Some 1000\<rparr>,
          authors = [walter],
          stories = [\<lparr>storyRow = a_story, authors = [donny, maude]\<rparr>]\<rparr>"
    by (simp add: updateCollection_second_iteration)
  have r0: "fst (updateCollection env0 db0 first_iteration) =
     Inr \<lparr>collectionRow = bowling\<lparr>Collection.title := ''first iteration''\<rparr>,
          authors = [walter],
          stories = [\<lparr>storyRow = a_story, authors = [donny, maude]\<rparr>]\<rparr>"
    by (simp add: updateCollection_first_iteration)
  have r2: "fst (updateCollection env0 db0 third_iteration) =
     Inr \<lparr>collectionRow = ringing\<lparr>Collection.title := ''third iteration''\<rparr>,
          authors = [the_dude], stories = []\<rparr>"
    by (simp add: updateCollection_third_iteration)
  have r3: "fst (updateCollection env0 db0 unpublished) =
     Inr \<lparr>collectionRow = ringing\<lparr>Collection.status := DRAFT\<rparr>,
          authors = [the_dude], stories = []\<rparr>"
    by (simp add: updateCollection_unpublished)
  have r4: "fst (updateCollection env0 db0 cleared) =
     Inr \<lparr>collectionRow = ringing\<lparr>Collection.publishedAt := None\<rparr>,
          authors = [the_dude], stories = []\<rparr>"
    by (simp add: updateCollection_cleared)
  have v: "Collection.status bowling = DRAFT" "Collection.status ringing = PUBLISHED"
    "Collection.publishedAt bowling = None" "Collection.publishedAt ringing = Some 5"
    "now env0 = 1000"
    "UpdateCollectionInput.status second_iteration = Some PUBLISHED"
    "UpdateCollectionInput.status first_iteration = Some DRAFT"
    "UpdateCollectionInput.status third_iteration = Some PUBLISHED"
    "UpdateCollectionInput.status unpublished = Some DRAFT"
    "UpdateCollectionInput.status cleared = Some PUBLISHED"
    "UpdateCollectionInput.publishedAt first_iteration = None"
    "UpdateCollectionInput.publishedAt third_iteration = None"
    "UpdateCollectionInput.publishedAt unpublished = None"
    "UpdateCollectionInput.publishedAt cleared = Some None"
    "UpdateCollectionInput.externalId third_iteration = ''c-2''"
    by (simp_all add: fixtures)
  note t1 = updateCollection_publishedAt [OF f1 r1]
    and t0 = updateCollection_publishedAt [OF f0 r0]
    and t2 = updateCollection_publishedAt [OF f2 r2]
    and t3 = updateCollection_publishedAt [OF f3 r3]
    and t4 = updateCollection_publishedAt [OF f4 r4]
  from t1 v have p1: "Collection.publishedAt
     (bowling\<lparr>Collection.title := ''second iteration'', Collection.status := PUBLISHED,
        Collection.publishedAt := Some 1000\<rparr>) = Some (now env0)"
    by simp
  from t0 v have p0: "Collection.publishedAt (bowling\<lparr>Collection.title := ''first iteration''\<rparr>) =
     Collection.publishedAt bowling"
    by simp
  from t2 v have p2: "Collection.publishedAt (ringing\<lparr>Collection.title := ''third iteration''\<rparr>) =
     Collection.publishedAt ringing"
    by simp
  from t3 v have p3: "Collection.publishedAt (ringing\<lparr>Collection.status := DRAFT\<rparr>) =
     Collection.publishedAt ringing"
    by simp
  from t4 v have p4: "Collection.publishedAt (ringing\<lparr>Collection.publishedAt := None\<rparr>) = None"
    by simp
  from t2 v have q2: "find (\<lambda>x. Collection.externalId x = ''c-2'')
     (collections (tables (snd (updateCollection env0 db0 third_iteration)))) =
     Some (ringing\<lparr>Collection.title := ''third iteration''\<rparr>)"
    by simp
  from p1 p0 p2 p3 p4 q2 r1 r0 r2 r3 r4 v show ?thesis
    by (intro conjI)
qed

text \<open>
  Two updates of a published collection whose input is published and carries a
  \<^verbatim>\<open>publishedAt\<close>, a date and \<^verbatim>\<open>null\<close>: the collection stays published, and the spread
  \<^verbatim>\<open>...data\<close> writes the property over the time of publication.
\<close>

theorem updateCollection_publishedAt_counterexample:
  "collections (tables db0) = [bowling, ringing] \<and>
   Collection.externalId ringing = UpdateCollectionInput.externalId redated \<and>
   Collection.status ringing = PUBLISHED \<and>
   Collection.publishedAt ringing = Some 5 \<and>
   UpdateCollectionInput.status redated = Some PUBLISHED \<and>
   fst (updateCollection env0 db0 redated) =
     Inr \<lparr>collectionRow = ringing\<lparr>Collection.publishedAt := Some 99\<rparr>,
          authors = [the_dude], stories = []\<rparr> \<and>
   collections (tables (snd (updateCollection env0 db0 redated))) =
     [bowling, ringing\<lparr>Collection.publishedAt := Some 99\<rparr>] \<and>
   Collection.status (ringing\<lparr>Collection.publishedAt := Some 99\<rparr>) = PUBLISHED \<and>
   Collection.publishedAt (ringing\<lparr>Collection.publishedAt := Some 99\<rparr>) \<noteq>
     Collection.publishedAt ringing \<and>
   Collection.externalId ringing = UpdateCollectionInput.externalId cleared \<and>
   UpdateCollectionInput.status cleared = Some PUBLISHED \<and>
   fst (updateCollection env0 db0 cleared) =
     Inr \<lparr>collectionRow = ringing\<lparr>Collection.publishedAt := None\<rparr>,
          authors = [the_dude], stories = []\<rparr> \<and>
   collections (tables (snd (updateCollection env0 db0 cleared))) =
     [bowling, ringing\<lparr>Collection.publishedAt := None\<rparr>] \<and>
   Collection.status (ringing\<lparr>Collection.publishedAt := None\<rparr>) = PUBLISHED \<and>
   Collection.publishedAt (ringing\<lparr>Collection.publishedAt := None\<rparr>) \<noteq>
     Collection.publishedAt ringing"
  by (simp add: updateCollection_redated updateCollection_cleared) (simp add: fixtures)

section \<open>Deleting a story\<close>




section \<open>Associating an image\<close>

lemma map_key_update_first:
  "(\<And>x. key (f x) = key x) \<Longrightarrow> map key (update_first P f xs) = map key xs"
  by (induction xs) auto

lemma associate_no_url:
  "Entity.imageUrl en = None \<or> Entity.imageUrl en = Some [] \<Longrightarrow>
     associateImageWithEntity db en ty = (Inr None, db)"
  by (auto simp: associateImageWithEntity_def)

lemma associate_no_image:
  "Entity.imageUrl en = Some u \<Longrightarrow> u \<noteq> [] \<Longrightarrow>
   find (\<lambda>i. Image.path i = u) (images (tables db)) = None \<Longrightarrow>
     fst (associateImageWithEntity db en ty) = Inr None \<and>
     tables (snd (associateImageWithEntity db en ty)) = tables db"
  by (simp add: associateImageWithEntity_def image_findUnique_def)

lemma associate_image:
  assumes "Entity.imageUrl en = Some u" "u \<noteq> []"
    and "find (\<lambda>i. Image.path i = u) (images (tables db)) = Some img"
    and "distinct (map Image.id (images (tables db)))"
  shows "fst (associateImageWithEntity db en ty) =
           Inr (Some (img\<lparr>Image.entityId := Some (Entity.id en), Image.entityType := Some ty\<rparr>))"
    and "\<exists>k<length (images (tables db)). images (tables db) ! k = img \<and>
           tables (snd (associateImageWithEntity db en ty)) =
             (tables db)\<lparr>images := (images (tables db))
                [k := img\<lparr>Image.entityId := Some (Entity.id en), Image.entityType := Some ty\<rparr>]\<rparr>"
proof -
  let ?f = "\<lambda>i. i\<lparr>Image.entityId := Some (Entity.id en), Image.entityType := Some ty\<rparr>"
  from assms(3) have "img \<in> set (images (tables db))" by (simp add: find_Some_mem)
  with assms(4) have byid: "find (\<lambda>i. Image.id i = Image.id img) (images (tables db)) = Some img"
    by (rule find_key_distinct)
  from assms(1-3) byid
  have res: "associateImageWithEntity db en ty =
      (Inr (Some (?f img)),
       logged D_image Update ((logged D_image FindUnique db)
         \<lparr>tables := (tables db)\<lparr>images :=
            update_first (\<lambda>i. Image.id i = Image.id img) ?f (images (tables db))\<rparr>\<rparr>))"
    by (simp add: associateImageWithEntity_def image_findUnique_def image_update_def)
  then show "fst (associateImageWithEntity db en ty) = Inr (Some (?f img))" by simp
  from update_first_list_update [OF byid, of ?f] obtain k where
    "k < length (images (tables db))" "images (tables db) ! k = img"
    "update_first (\<lambda>i. Image.id i = Image.id img) ?f (images (tables db)) =
       (images (tables db))[k := ?f img]"
    by blast
  with res show "\<exists>k<length (images (tables db)). images (tables db) ! k = img \<and>
           tables (snd (associateImageWithEntity db en ty)) =
             (tables db)\<lparr>images := (images (tables db))[k := ?f img]\<rparr>"
    by auto
qed

lemma associate_creates_nothing:
  "map Image.id (images (tables (snd (associateImageWithEntity db en ty)))) =
     map Image.id (images (tables db)) \<and>
   map Image.path (images (tables (snd (associateImageWithEntity db en ty)))) =
     map Image.path (images (tables db))"
  by (auto simp: associateImageWithEntity_def image_findUnique_def image_update_def
      map_key_update_first split: option.splits)

text \<open>
  C10. \<^verbatim>\<open>associateImageWithEntity\<close> creates no image: the ids and the paths of the
  image table are the same afterwards. With an absent or empty \<^verbatim>\<open>imageUrl\<close> it returns
  nothing and leaves the client as it was. When no image has the \<^verbatim>\<open>imageUrl\<close> as its
  path it returns nothing and no table changes. Otherwise (image ids being unique) the
  one image found gets the entity's id and type, every other row of every table stays,
  and the updated image is returned.
\<close>

theorem associateImageWithEntity_frame:
  "(Entity.imageUrl en = None \<or> Entity.imageUrl en = Some [] \<longrightarrow>
      associateImageWithEntity db en ty = (Inr None, db)) \<and>
   (Entity.imageUrl en = Some u \<and> u \<noteq> [] \<and>
    find (\<lambda>i. Image.path i = u) (images (tables db)) = None \<longrightarrow>
      fst (associateImageWithEntity db en ty) = Inr None \<and>
      tables (snd (associateImageWithEntity db en ty)) = tables db) \<and>
   (Entity.imageUrl en = Some u \<and> u \<noteq> [] \<and>
    find (\<lambda>i. Image.path i = u) (images (tables db)) = Some img \<and>
    distinct (map Image.id (images (tables db))) \<longrightarrow>
      fst (associateImageWithEntity db en ty) =
        Inr (Some (img\<lparr>Image.entityId := Some (Entity.id en), Image.entityType := Some ty\<rparr>)) \<and>
      (\<exists>k<length (images (tables db)). images (tables db) ! k = img \<and>
         tables (snd (associateImageWithEntity db en ty)) =
           (tables db)\<lparr>images := (images (tables db))
              [k := img\<lparr>Image.entityId := Some (Entity.id en),
                        Image.entityType := Some ty\<rparr>]\<rparr>)) \<and>
   map Image.id (images (tables (snd (associateImageWithEntity db en ty)))) =
     map Image.id (images (tables db)) \<and>
   map Image.path (images (tables (snd (associateImageWithEntity db en ty)))) =
     map Image.path (images (tables db))"
  using associate_no_url [of en db ty] associate_no_image [of en u db ty]
    associate_image [of en u db img ty] associate_creates_nothing [of db en ty]
  by blast


theorem associateImageWithEntity_frame_witness:
  "associateImageWithEntity db0 walter_entity ''COLLECTION_AUTHOR'' = (Inr None, db0) \<and>
   fst (associateImageWithEntity db0 donny_entity ''COLLECTION_AUTHOR'') = Inr None \<and>
   tables (snd (associateImageWithEntity db0 donny_entity ''COLLECTION_AUTHOR'')) = tables db0 \<and>
   fst (associateImageWithEntity db0 the_dude_entity ''COLLECTION_AUTHOR'') =
     Inr (Some (dude_gif\<lparr>Image.entityId := Some 2,
                         Image.entityType := Some ''COLLECTION_AUTHOR''\<rparr>)) \<and>
   images (tables (snd (associateImageWithEntity db0 the_dude_entity ''COLLECTION_AUTHOR''))) =
     [dude_gif\<lparr>Image.entityId := Some 2, Image.entityType := Some ''COLLECTION_AUTHOR''\<rparr>]"
proof -
  have h1: "Entity.imageUrl walter_entity = None"
    by (simp add: fixtures)
  have h2: "Entity.imageUrl donny_entity = Some ''donny.gif'' \<and> ''donny.gif'' \<noteq> [] \<and>
            find (\<lambda>i. Image.path i = ''donny.gif'') (images (tables db0)) = None"
    by (simp add: fixtures)
  have h3: "Entity.imageUrl the_dude_entity = Some ''dude.gif'' \<and> ''dude.gif'' \<noteq> [] \<and>
            find (\<lambda>i. Image.path i = ''dude.gif'') (images (tables db0)) = Some dude_gif \<and>
            distinct (map Image.id (images (tables db0)))"
    by (simp add: fixtures)
  have v: "Entity.id the_dude_entity = 2" "images (tables db0) = [dude_gif]"
    by (simp_all add: fixtures)
  from associateImageWithEntity_frame [of walter_entity db0 "''COLLECTION_AUTHOR''"] h1
  have a: "associateImageWithEntity db0 walter_entity ''COLLECTION_AUTHOR'' = (Inr None, db0)"
    by simp
  from associateImageWithEntity_frame
         [of donny_entity db0 "''COLLECTION_AUTHOR''" "''donny.gif''"] h2
  have b: "fst (associateImageWithEntity db0 donny_entity ''COLLECTION_AUTHOR'') = Inr None \<and>
     tables (snd (associateImageWithEntity db0 donny_entity ''COLLECTION_AUTHOR'')) = tables db0"
    by simp
  from associateImageWithEntity_frame
         [of the_dude_entity db0 "''COLLECTION_AUTHOR''" "''dude.gif''" dude_gif] h3 v
  have c: "fst (associateImageWithEntity db0 the_dude_entity ''COLLECTION_AUTHOR'') =
     Inr (Some (dude_gif\<lparr>Image.entityId := Some 2,
                         Image.entityType := Some ''COLLECTION_AUTHOR''\<rparr>)) \<and>
     images (tables (snd (associateImageWithEntity db0 the_dude_entity ''COLLECTION_AUTHOR''))) =
     [dude_gif\<lparr>Image.entityId := Some 2, Image.entityType := Some ''COLLECTION_AUTHOR''\<rparr>]"
    by auto
  from a b c show ?thesis by simp
qed

section \<open>Lookups that find nothing\<close>

lemma story_lookup_TypeError:
  "find (\<lambda>c. Collection.externalId c = CreateCollectionStoryInput.collectionExternalId c1)
     (collections (tables db)) = None \<Longrightarrow>
     fst (createCollectionStory e db c1) = Inl TypeError \<and>
     tables (snd (createCollectionStory e db c1)) = tables db"
  "find (\<lambda>x. CollectionStory.externalId x = UpdateCollectionStoryInput.externalId u1)
     (collectionStories (tables db)) = None \<Longrightarrow>
     fst (updateCollectionStory db u1) = Inl TypeError \<and>
     tables (snd (updateCollectionStory db u1)) = tables db"
  "find (\<lambda>x. CollectionStory.externalId x = eid) (collectionStories (tables db)) = None \<Longrightarrow>
     fst (deleteCollectionStory db eid) = Inl TypeError \<and>
     tables (snd (deleteCollectionStory db eid)) = tables db"
  by (simp_all add: createCollectionStory_def updateCollectionStory_def
      deleteCollectionStory_def getCollection_def getCollectionStory_def)

text \<open>
  C3. A lookup that finds nothing: \<^verbatim>\<open>updateCollection\<close> throws an error with a message
  of its own; \<^verbatim>\<open>createCollectionStory\<close>, \<^verbatim>\<open>updateCollectionStory\<close> and
  \<^verbatim>\<open>deleteCollectionStory\<close> read a property of the missing result and end in the
  runtime's \<^verbatim>\<open>TypeError\<close>.
\<close>

theorem story_lookup_unchecked:
  "fst (updateCollection env0 db0 unknown_collection) =
     Inl (Error ''A collection by that ID could not be found'') \<and>
   fst (createCollectionStory env0 db0 orphan_story) = Inl TypeError \<and>
   fst (updateCollectionStory db0 unknown_story) = Inl TypeError \<and>
   fst (deleteCollectionStory db0 ''s-1typo'') = Inl TypeError"
  by (simp add: updateCollection_def createCollectionStory_def updateCollectionStory_def
      deleteCollectionStory_def getCollection_def getCollectionStory_def fixtures)


end
